theory Spec2Isabelle
  imports Main "HOL-Library.Sublist"
begin

section \<open>JavaScript strings and values\<close>

text \<open>
  Strings are \<open>char list\<close>. Case conversion is the ASCII part of
  \<^verbatim>\<open>String.prototype.toUpperCase\<close> / \<^verbatim>\<open>toLowerCase\<close>: identifiers and type names of
  the dialect are ASCII.
\<close>

definition toUpperChar :: "char \<Rightarrow> char" where
  "toUpperChar c =
     (case map_of (zip ''abcdefghijklmnopqrstuvwxyz'' ''ABCDEFGHIJKLMNOPQRSTUVWXYZ'') c of
        Some u \<Rightarrow> u | None \<Rightarrow> c)"

definition toLowerChar :: "char \<Rightarrow> char" where
  "toLowerChar c =
     (case map_of (zip ''ABCDEFGHIJKLMNOPQRSTUVWXYZ'' ''abcdefghijklmnopqrstuvwxyz'') c of
        Some u \<Rightarrow> u | None \<Rightarrow> c)"

definition toUpperCase :: "string \<Rightarrow> string" where
  "toUpperCase s = map toUpperChar s"

definition toLowerCase :: "string \<Rightarrow> string" where
  "toLowerCase s = map toLowerChar s"

text \<open>\<^verbatim>\<open>Array.prototype.join\<close> on an array of strings.\<close>

fun join :: "string \<Rightarrow> string list \<Rightarrow> string" where
  "join sep [] = []"
| "join sep [x] = x"
| "join sep (x # y # ys) = x @ sep @ join sep (y # ys)"

text \<open>
  \<^verbatim>\<open>s.replace(c, r)\<close> with a string pattern of one character: only the first
  occurrence is replaced.
\<close>

fun replace_first :: "char \<Rightarrow> string \<Rightarrow> string \<Rightarrow> string" where
  "replace_first c r [] = []"
| "replace_first c r (x # xs) = (if x = c then r @ xs else x # replace_first c r xs)"

text \<open>Numbers interpolated into a template literal: decimal digits, a sign when negative.\<close>

fun string_of_nat :: "nat \<Rightarrow> string" where
  "string_of_nat n =
     (if n < 10 then [''0123456789'' ! n]
      else string_of_nat (n div 10) @ [''0123456789'' ! (n mod 10)])"

declare string_of_nat.simps [simp del]

definition string_of_int :: "int \<Rightarrow> string" where
  "string_of_int i = (if i < 0 then ''-'' @ string_of_nat (nat (- i)) else string_of_nat (nat i))"

text \<open>
  The primitive values that the client reads from its parameters, from result rows and
  from its own state. Objects are finite maps from property names to such values; a
  name outside the domain is a property the object does not have.
\<close>

datatype cell = Undefined | Null | Bool bool | Num int | Str string

type_synonym obj = "string \<rightharpoonup> cell"

text \<open>Reading a property: \<^verbatim>\<open>undefined\<close> when the object does not have it.\<close>

definition get :: "obj \<Rightarrow> string \<Rightarrow> cell" where
  "get ob k = (case ob k of None \<Rightarrow> Undefined | Some v \<Rightarrow> v)"

text \<open>Truthiness, \<^verbatim>\<open>a || b\<close>, and the conversion to a string of a template literal.\<close>

fun truthy :: "cell \<Rightarrow> bool" where
  "truthy Undefined = False"
| "truthy Null = False"
| "truthy (Bool b) = b"
| "truthy (Num n) = (n \<noteq> 0)"
| "truthy (Str s) = (s \<noteq> [])"

definition js_or :: "cell \<Rightarrow> cell \<Rightarrow> cell" where
  "js_or a b = (if truthy a then a else b)"

fun to_str :: "cell \<Rightarrow> string" where
  "to_str Undefined = ''undefined''"
| "to_str Null = ''null''"
| "to_str (Bool b) = (if b then ''true'' else ''false'')"
| "to_str (Num n) = string_of_int n"
| "to_str (Str s) = s"

definition nl :: string where
  "nl = [CHR 0x0A]"

text \<open>The errors a call can raise: a JavaScript \<^verbatim>\<open>TypeError\<close>, or the driver's error.\<close>

datatype error = TypeError | DriverError string

section \<open>The type catalog\<close>

text \<open>
  \<^verbatim>\<open>common/data-types/postgresql\<close> is imported by the client; its table is a parameter
  \<open>dataTypes\<close> of the functions that read it: groups, each with a list of types, of
  which the client reads \<^verbatim>\<open>name\<close> and \<^verbatim>\<open>length\<close>.
\<close>

record type_info =
  ti_name :: string
  ti_length :: bool

record type_group =
  tg_group :: string
  tg_types :: "type_info list"

text \<open>\<^verbatim>\<open>_getTypeInfo\<close>; \<open>None\<close> is \<^verbatim>\<open>undefined\<close> (element 0 of an empty array).\<close>

definition getTypeInfo :: "type_group list \<Rightarrow> string \<Rightarrow> type_info option" where
  "getTypeInfo dataTypes type =
     (case filter (\<lambda>t. ti_name t = toUpperCase type)
             (foldl (\<lambda>acc group. acc @ tg_types group) [] dataTypes) of
        [] \<Rightarrow> None
      | t # _ \<Rightarrow> Some t)"

section \<open>The schema diff handed to alterTable\<close>

record column =
  col_name :: string
  col_orgName :: string
  col_type :: string
  col_numLength :: cell
  col_charLength :: cell
  col_datePrecision :: cell
  col_isArray :: bool
  col_unsigned :: bool
  col_zerofill :: bool
  col_nullable :: bool
  col_autoIncrement :: bool
  col_default :: cell
  col_comment :: cell
  col_collation :: cell
  col_onUpdate :: cell

record index =
  ix_name :: string
  ix_oldName :: string
  ix_fields :: "string list"
  ix_type :: string
  ix_oldType :: string

record foreign =
  fk_constraintName :: string
  fk_oldName :: string
  fk_field :: string
  fk_refTable :: string
  fk_refField :: string
  fk_onUpdate :: string
  fk_onDelete :: string

record index_changes =
  ic_additions :: "index list"
  ic_changes :: "index list"
  ic_deletions :: "index list"

record foreign_changes =
  fc_additions :: "foreign list"
  fc_changes :: "foreign list"
  fc_deletions :: "foreign list"

text \<open>
  The options bag: \<open>None\<close> is a key that is not in the object
  (\<^verbatim>\<open>'comment' in options\<close> is false); \<open>opt_autoIncrement\<close> is a number (it goes
  through unary \<^verbatim>\<open>+\<close>); \<open>opt_name\<close> is tested for truthiness.
\<close>

record table_options =
  opt_comment :: "cell option"
  opt_engine :: "cell option"
  opt_autoIncrement :: "int option"
  opt_collation :: "cell option"
  opt_name :: cell

record alter_params =
  p_table :: string
  p_additions :: "column list"
  p_deletions :: "column list"
  p_changes :: "column list"
  p_indexChanges :: index_changes
  p_foreignChanges :: foreign_changes
  p_options :: table_options

section \<open>alterTable\<close>

text \<open>The four arrays that alterTable fills before it assembles the SQL text.\<close>

record ddl =
  alterColumns :: "string list"
  renameColumns :: "string list"
  createSequences :: "string list"
  manageIndexes :: "string list"

definition push_alter :: "string \<Rightarrow> ddl \<Rightarrow> ddl" where
  "push_alter s d = d\<lparr>alterColumns := alterColumns d @ [s]\<rparr>"

definition push_rename :: "string \<Rightarrow> ddl \<Rightarrow> ddl" where
  "push_rename s d = d\<lparr>renameColumns := renameColumns d @ [s]\<rparr>"

definition push_sequence :: "string \<Rightarrow> ddl \<Rightarrow> ddl" where
  "push_sequence s d = d\<lparr>createSequences := createSequences d @ [s]\<rparr>"

definition push_index :: "string \<Rightarrow> ddl \<Rightarrow> ddl" where
  "push_index s d = d\<lparr>manageIndexes := manageIndexes d @ [s]\<rparr>"

text \<open>\<^verbatim>\<open>forEach\<close> with a callback that can throw: the first exception ends the loop.\<close>

fun forEach :: "('a \<Rightarrow> 's \<Rightarrow> error + 's) \<Rightarrow> 'a list \<Rightarrow> 's \<Rightarrow> error + 's" where
  "forEach f [] s = Inr s"
| "forEach f (x # xs) s = (case f x s of Inl e \<Rightarrow> Inl e | Inr s' \<Rightarrow> forEach f xs s')"

text \<open>
  \<^verbatim>\<open>typeInfo.length ? c.numLength || c.charLength || c.datePrecision : false\<close>.
  Reading \<^verbatim>\<open>.length\<close> of an undefined \<open>typeInfo\<close> throws.
\<close>

definition column_length :: "type_group list \<Rightarrow> column \<Rightarrow> error + cell" where
  "column_length dataTypes c =
     (case getTypeInfo dataTypes (col_type c) of
        None \<Rightarrow> Inl TypeError
      | Some typeInfo \<Rightarrow>
          Inr (if ti_length typeInfo
               then js_or (js_or (col_numLength c) (col_charLength c)) (col_datePrecision c)
               else Bool False))"

definition length_suffix :: "cell \<Rightarrow> string" where
  "length_suffix len = (if truthy len then ''('' @ to_str len @ '')'' else '''')"

definition indent :: string where
  "indent = replicate 12 CHR '' ''"

text \<open>OPTIONS\<close>

definition options_step :: "table_options \<Rightarrow> ddl \<Rightarrow> ddl" where
  "options_step options d0 =
     (let d1 = (case opt_comment options of None \<Rightarrow> d0
                | Some v \<Rightarrow> push_alter (''COMMENT='' @ [CHR 0x27] @ to_str v @ [CHR 0x27]) d0);
          d2 = (case opt_engine options of None \<Rightarrow> d1
                | Some v \<Rightarrow> push_alter (''ENGINE='' @ to_str v) d1);
          d3 = (case opt_autoIncrement options of None \<Rightarrow> d2
                | Some v \<Rightarrow> push_alter (''AUTO_INCREMENT='' @ string_of_int v) d2);
          d4 = (case opt_collation options of None \<Rightarrow> d3
                | Some v \<Rightarrow> push_alter (''COLLATE='' @ [CHR 0x27] @ to_str v @ [CHR 0x27]) d3)
      in d4)"

text \<open>ADD FIELDS: the clause of one addition, as the template literal lays it out.\<close>

definition add_column_clause :: "cell \<Rightarrow> column \<Rightarrow> string" where
  "add_column_clause len a =
     ''ADD COLUMN '' @ col_name a @ '' '' @ nl
     @ indent @ toUpperCase (col_type a) @ length_suffix len
         @ (if col_isArray a then ''[]'' else '''') @ nl
     @ indent @ (if col_unsigned a then ''UNSIGNED'' else '''') @ '' '' @ nl
     @ indent @ (if col_zerofill a then ''ZEROFILL'' else '''') @ nl
     @ indent @ (if col_nullable a then ''NULL'' else ''NOT NULL'') @ nl
     @ indent @ (if col_autoIncrement a then ''AUTO_INCREMENT'' else '''') @ nl
     @ indent @ (if truthy (col_default a) then ''DEFAULT '' @ to_str (col_default a) else '''') @ nl
     @ indent @ (if truthy (col_comment a)
                 then ''COMMENT '' @ [CHR 0x27] @ to_str (col_comment a) @ [CHR 0x27] else '''') @ nl
     @ indent @ (if truthy (col_collation a) then ''COLLATE '' @ to_str (col_collation a) else '''') @ nl
     @ indent @ (if truthy (col_onUpdate a) then ''ON UPDATE '' @ to_str (col_onUpdate a) else '''')"

definition add_field :: "type_group list \<Rightarrow> column \<Rightarrow> ddl \<Rightarrow> error + ddl" where
  "add_field dataTypes addition d =
     (case column_length dataTypes addition of
        Inl e \<Rightarrow> Inl e
      | Inr len \<Rightarrow> Inr (push_alter (add_column_clause len addition) d))"

text \<open>ADD INDEX and the second half of CHANGE INDEX render the same three cases.\<close>

definition create_index_stmt :: "string \<Rightarrow> index \<Rightarrow> string" where
  "create_index_stmt table i =
     ''CREATE INDEX '' @ ix_name i @ '' ON '' @ table @ ''('' @ join '','' (ix_fields i) @ '')''"

definition add_index :: "string \<Rightarrow> index \<Rightarrow> ddl \<Rightarrow> ddl" where
  "add_index table addition d =
     (let fields = join '','' (ix_fields addition); type = ix_type addition in
      if type = ''PRIMARY'' then push_alter (''ADD PRIMARY KEY ('' @ fields @ '')'') d
      else if type = ''UNIQUE''
      then push_alter (''ADD CONSTRAINT '' @ ix_name addition @ '' UNIQUE ('' @ fields @ '')'') d
      else push_index (create_index_stmt table addition) d)"

text \<open>ADD FOREIGN KEYS\<close>

definition foreign_clause :: "foreign \<Rightarrow> string" where
  "foreign_clause f =
     ''ADD CONSTRAINT '' @ fk_constraintName f @ '' FOREIGN KEY ('' @ fk_field f
     @ '') REFERENCES '' @ fk_refTable f @ '' ('' @ fk_refField f @ '') ON UPDATE ''
     @ fk_onUpdate f @ '' ON DELETE '' @ fk_onDelete f"

definition add_foreign :: "foreign \<Rightarrow> ddl \<Rightarrow> ddl" where
  "add_foreign addition d = push_alter (foreign_clause addition) d"

text \<open>CHANGE FIELDS\<close>

definition is_serial :: "string \<Rightarrow> bool" where
  "is_serial type = (type \<in> set [''SERIAL'', ''SMALLSERIAL'', ''BIGSERIAL''])"

definition localType :: "string \<Rightarrow> string" where
  "localType type =
     (if type = ''SERIAL'' then ''integer''
      else if type = ''SMALLSERIAL'' then ''smallint''
      else if type = ''BIGSERIAL'' then ''bigint''
      else toLowerCase type)"

definition alter_type_clause :: "cell \<Rightarrow> column \<Rightarrow> string" where
  \<open>alter_type_clause len c =
     ''ALTER COLUMN "'' @ col_orgName c @ ''" TYPE '' @ localType (col_type c) @ length_suffix len
     @ (if col_isArray c then ''[]'' else '''')
     @ '' USING "'' @ col_orgName c @ ''"::'' @ localType (col_type c)\<close>

definition alter_null_clause :: "column \<Rightarrow> string" where
  \<open>alter_null_clause c =
     ''ALTER COLUMN "'' @ col_orgName c @ ''" ''
     @ (if col_nullable c then ''DROP NOT NULL'' else ''SET NOT NULL'')\<close>

definition alter_default_clause :: "column \<Rightarrow> string" where
  \<open>alter_default_clause c =
     ''ALTER COLUMN "'' @ col_orgName c @ ''" ''
     @ (if truthy (col_default c) then ''SET DEFAULT '' @ to_str (col_default c)
        else ''DROP DEFAULT'')\<close>

definition sequenceName :: "string \<Rightarrow> column \<Rightarrow> string" where
  "sequenceName table c = replace_first CHR '' '' ''_'' (table @ ''_'' @ col_name c @ ''_seq'')"

definition create_sequence_stmt :: "string \<Rightarrow> column \<Rightarrow> string" where
  \<open>create_sequence_stmt table c =
     ''CREATE SEQUENCE IF NOT EXISTS '' @ sequenceName table c
     @ '' OWNED BY "'' @ table @ ''"."'' @ col_orgName c @ ''"''\<close>

definition alter_nextval_clause :: "string \<Rightarrow> column \<Rightarrow> string" where
  \<open>alter_nextval_clause table c =
     ''ALTER COLUMN "'' @ col_orgName c @ ''" SET DEFAULT nextval('' @ [CHR 0x27]
     @ sequenceName table c @ [CHR 0x27] @ '')''\<close>

definition rename_column_stmt :: "cell \<Rightarrow> string \<Rightarrow> column \<Rightarrow> string" where
  \<open>rename_column_stmt schema table c =
     ''ALTER TABLE "'' @ to_str schema @ ''"."'' @ table @ ''" RENAME COLUMN "'' @ col_orgName c
     @ ''" TO "'' @ col_name c @ ''"''\<close>

definition change_field ::
  "type_group list \<Rightarrow> cell \<Rightarrow> string \<Rightarrow> column \<Rightarrow> ddl \<Rightarrow> error + ddl" where
  "change_field dataTypes schema table change d =
     (case column_length dataTypes change of
        Inl e \<Rightarrow> Inl e
      | Inr len \<Rightarrow>
          (let d1 = push_alter (alter_type_clause len change) d;
               d2 = push_alter (alter_null_clause change) d1;
               d3 = push_alter (alter_default_clause change) d2;
               d4 = (if is_serial (col_type change)
                     then push_alter (alter_nextval_clause table change)
                            (push_sequence (create_sequence_stmt table change) d3)
                     else d3);
               d5 = (if col_orgName change \<noteq> col_name change
                     then push_rename (rename_column_stmt schema table change) d4
                     else d4)
           in Inr d5))"

text \<open>CHANGE INDEX\<close>

definition change_index :: "string \<Rightarrow> index \<Rightarrow> ddl \<Rightarrow> ddl" where
  "change_index table change d =
     (let d1 = (if ix_oldType change = ''PRIMARY'' then push_alter ''DROP PRIMARY KEY'' d
                else if ix_oldType change = ''UNIQUE''
                then push_alter (''DROP CONSTRAINT '' @ ix_oldName change) d
                else push_index (''DROP INDEX '' @ ix_oldName change) d)
      in add_index table change d1)"

text \<open>CHANGE FOREIGN KEYS\<close>

definition change_foreign :: "foreign \<Rightarrow> ddl \<Rightarrow> ddl" where
  "change_foreign change d =
     push_alter (foreign_clause change) (push_alter (''DROP CONSTRAINT '' @ fk_oldName change) d)"

text \<open>DROP FIELDS, DROP INDEX, DROP FOREIGN KEYS\<close>

definition drop_field :: "column \<Rightarrow> ddl \<Rightarrow> ddl" where
  "drop_field deletion d = push_alter (''DROP COLUMN '' @ col_name deletion) d"

definition drop_index :: "index \<Rightarrow> ddl \<Rightarrow> ddl" where
  "drop_index deletion d =
     (if ix_type deletion \<in> set [''PRIMARY'', ''UNIQUE'']
      then push_alter (''DROP CONSTRAINT '' @ ix_name deletion) d
      else push_index (''DROP INDEX '' @ ix_name deletion) d)"

definition drop_foreign :: "foreign \<Rightarrow> ddl \<Rightarrow> ddl" where
  "drop_foreign deletion d = push_alter (''DROP CONSTRAINT '' @ fk_constraintName deletion) d"

text \<open>
  The iterations of alterTable, in the order of the source. \<open>fold\<close> is \<^verbatim>\<open>forEach\<close> with a
  callback that cannot throw.
\<close>

definition alterTable_ddl ::
  "type_group list \<Rightarrow> cell \<Rightarrow> alter_params \<Rightarrow> error + ddl" where
  "alterTable_ddl dataTypes schema params =
     (let table = p_table params;
          indexChanges = p_indexChanges params;
          foreignChanges = p_foreignChanges params;
          d0 = \<lparr>alterColumns = [], renameColumns = [], createSequences = [], manageIndexes = []\<rparr>;
          d1 = options_step (p_options params) d0
      in case forEach (add_field dataTypes) (p_additions params) d1 of
           Inl e \<Rightarrow> Inl e
         | Inr d2 \<Rightarrow>
             (let d3 = fold (add_index table) (ic_additions indexChanges) d2;
                  d4 = fold add_foreign (fc_additions foreignChanges) d3
              in case forEach (change_field dataTypes schema table) (p_changes params) d4 of
                   Inl e \<Rightarrow> Inl e
                 | Inr d5 \<Rightarrow>
                     (let d6 = fold (change_index table) (ic_changes indexChanges) d5;
                          d7 = fold change_foreign (fc_changes foreignChanges) d6;
                          d8 = fold drop_field (p_deletions params) d7;
                          d9 = fold drop_index (ic_deletions indexChanges) d8;
                          d10 = fold drop_foreign (fc_deletions foreignChanges) d9
                      in Inr d10)))"

text \<open>The assembly of the SQL text from the four arrays.\<close>

definition alter_table_head :: "cell \<Rightarrow> string \<Rightarrow> string" where
  \<open>alter_table_head schema table = ''ALTER TABLE "'' @ to_str schema @ ''"."'' @ table @ ''" ''\<close>

definition assemble :: "cell \<Rightarrow> string \<Rightarrow> table_options \<Rightarrow> ddl \<Rightarrow> string" where
  \<open>assemble schema table options d =
     (let sql0 = '''';
          sql1 = (if alterColumns d \<noteq> []
                  then sql0 @ alter_table_head schema table @ join '', '' (alterColumns d) @ ''; ''
                  else sql0);
          sql2 = (if renameColumns d \<noteq> [] then sql1 @ join '';'' (renameColumns d) @ ''; ''
                  else sql1);
          sql3 = (if createSequences d \<noteq> [] then join '';'' (createSequences d) @ ''; '' @ sql2
                  else sql2);
          sql4 = (if manageIndexes d \<noteq> [] then join '';'' (manageIndexes d) @ ''; '' @ sql3
                  else sql3);
          sql5 = (if truthy (opt_name options)
                  then sql4 @ alter_table_head schema table @ ''RENAME TO "''
                       @ to_str (opt_name options) @ ''"; ''
                  else sql4)
      in sql5)\<close>

text \<open>The text that alterTable hands to \<^verbatim>\<open>raw\<close>, or the exception raised while building it.\<close>

definition alterTable_sql ::
  "type_group list \<Rightarrow> cell \<Rightarrow> alter_params \<Rightarrow> error + string" where
  "alterTable_sql dataTypes schema params =
     (case alterTable_ddl dataTypes schema params of
        Inl e \<Rightarrow> Inl e
      | Inr d \<Rightarrow> Inr (assemble schema (p_table params) (p_options params) d))"

section \<open>The query builder: getSQL\<close>

text \<open>
  The query descriptor \<^verbatim>\<open>this._query\<close>. The entries of the clause lists are reduced with
  \<^verbatim>\<open>this._reducer\<close>, a method of the base class AntaresCore, which is not among the
  sources: getSQL takes it as the parameter \<open>reducer\<close>, and the entries have any type
  \<open>'e\<close>. An insert row is an object, its properties in insertion order.
\<close>

record 'e query =
  q_select :: "'e list"
  q_from :: cell
  q_schema :: cell
  q_where :: "'e list"
  q_groupBy :: "'e list"
  q_orderBy :: "'e list"
  q_limit :: "cell list"
  q_update :: "'e list"
  q_insert :: "(string \<times> cell) list list"
  q_delete :: bool

text \<open>An array element under \<^verbatim>\<open>join\<close>: \<^verbatim>\<open>null\<close> and \<^verbatim>\<open>undefined\<close> give the empty string.\<close>

fun arr_str :: "cell \<Rightarrow> string" where
  "arr_str Undefined = ''''"
| "arr_str Null = ''''"
| "arr_str v = to_str v"

definition selectArray :: "(string list \<Rightarrow> 'e \<Rightarrow> string list) \<Rightarrow> 'e query \<Rightarrow> string list" where
  "selectArray reducer q = foldl reducer [] (q_select q)"

definition selectRaw :: "(string list \<Rightarrow> 'e \<Rightarrow> string list) \<Rightarrow> 'e query \<Rightarrow> string" where
  "selectRaw reducer q =
     (if selectArray reducer q \<noteq> []
      then (if selectArray reducer q \<noteq> []
            then ''SELECT '' @ join '', '' (selectArray reducer q) @ '' ''
            else ''SELECT * '')
      else '''')"

definition fromRaw :: "'e query \<Rightarrow> string" where
  "fromRaw q =
     (let fromRaw0 =
            (if q_update q = [] \<and> q_insert q = [] \<and> truthy (q_from q) then ''FROM''
             else if q_insert q \<noteq> [] then ''INTO''
             else '''')
      in fromRaw0
         @ (if truthy (q_from q)
            then '' '' @ (if truthy (q_schema q) then to_str (q_schema q) @ ''.'' else '''')
                 @ to_str (q_from q) @ '' ''
            else ''''))"

definition whereRaw :: "(string list \<Rightarrow> 'e \<Rightarrow> string list) \<Rightarrow> 'e query \<Rightarrow> string" where
  "whereRaw reducer q =
     (let whereArray = foldl reducer [] (q_where q)
      in if whereArray \<noteq> [] then ''WHERE '' @ join '' AND '' whereArray @ '' '' else '''')"

definition updateRaw :: "(string list \<Rightarrow> 'e \<Rightarrow> string list) \<Rightarrow> 'e query \<Rightarrow> string" where
  "updateRaw reducer q =
     (let updateArray = foldl reducer [] (q_update q)
      in if updateArray \<noteq> [] then ''SET '' @ join '', '' updateArray @ '' '' else '''')"

definition insertRaw :: "'e query \<Rightarrow> string" where
  \<open>insertRaw q =
     (case q_insert q of
        [] \<Rightarrow> ''''
      | first # _ \<Rightarrow>
          (let fieldsList = map (\<lambda>f. ''"'' @ f @ ''"'') (map fst first);
               rowsList = map (\<lambda>el. ''('' @ join '', '' (map arr_str (map snd el)) @ '')'') (q_insert q)
           in ''('' @ join '', '' fieldsList @ '') VALUES '' @ join '', '' rowsList @ '' ''))\<close>

definition groupByRaw :: "(string list \<Rightarrow> 'e \<Rightarrow> string list) \<Rightarrow> 'e query \<Rightarrow> string" where
  "groupByRaw reducer q =
     (let groupByArray = foldl reducer [] (q_groupBy q)
      in if groupByArray \<noteq> [] then ''GROUP BY '' @ join '', '' groupByArray @ '' '' else '''')"

definition orderByRaw :: "(string list \<Rightarrow> 'e \<Rightarrow> string list) \<Rightarrow> 'e query \<Rightarrow> string" where
  "orderByRaw reducer q =
     (let orderByArray = foldl reducer [] (q_orderBy q)
      in if orderByArray \<noteq> [] then ''ORDER BY '' @ join '', '' orderByArray @ '' '' else '''')"

definition limitRaw :: "(string list \<Rightarrow> 'e \<Rightarrow> string list) \<Rightarrow> 'e query \<Rightarrow> string" where
  "limitRaw reducer q =
     (if selectArray reducer q \<noteq> [] \<and> q_limit q \<noteq> []
      then ''LIMIT '' @ join '', '' (map arr_str (q_limit q)) @ '' ''
      else '''')"

definition getSQL :: "(string list \<Rightarrow> 'e \<Rightarrow> string list) \<Rightarrow> 'e query \<Rightarrow> string" where
  "getSQL reducer q =
     selectRaw reducer q
     @ (if updateRaw reducer q \<noteq> [] then ''UPDATE'' else '''')
     @ (if insertRaw q \<noteq> [] then ''INSERT '' else '''')
     @ (if q_delete q then ''DELETE '' else '''')
     @ fromRaw q @ updateRaw reducer q @ whereRaw reducer q @ groupByRaw reducer q
     @ orderByRaw reducer q @ limitRaw reducer q @ insertRaw q"

text \<open>
  Modelled from the spec: \<^verbatim>\<open>_reducer\<close> of AntaresCore is missing from the sources. The spec
  describes the descriptor as ordered lists of caller-supplied literal fragments that
  rendering joins with commas and \<^verbatim>\<open>AND\<close>; so reducing keeps every fragment, in order.
\<close>

definition reducer_spec :: "string list \<Rightarrow> cell \<Rightarrow> string list" where
  "reducer_spec acc entry = acc @ [to_str entry]"

text \<open>
  Whitespace normalisation, as the spec's round-trip property uses it: runs of blanks
  count as one blank, blanks at either end do not count.
\<close>

definition is_ws :: "char \<Rightarrow> bool" where
  "is_ws c = (c \<in> set [CHR '' '', CHR 0x09, CHR 0x0A, CHR 0x0D])"

fun words_of :: "string \<Rightarrow> string \<Rightarrow> string list" where
  "words_of cur [] = (if cur = [] then [] else [cur])"
| "words_of cur (c # cs) =
     (if is_ws c then (if cur = [] then words_of [] cs else cur # words_of [] cs)
      else words_of (cur @ [c]) cs)"

definition normalize_ws :: "string \<Rightarrow> string" where
  "normalize_ws s = join '' '' (words_of [] s)"

section \<open>Column introspection: the row mapping of getTableColumns\<close>

text \<open>A result row: an object, or an array of values when the driver runs in array mode.\<close>

datatype row = RowObj obj | RowArr "cell list"

fun row_get :: "row \<Rightarrow> string \<Rightarrow> cell" where
  "row_get (RowObj ob) k = get ob k"
| "row_get (RowArr vs) k = Undefined"

definition arrayTypes :: "(string \<times> string) list" where
  \<open>arrayTypes =
     [(''_int2'', ''SMALLINT''),
      (''_int4'', ''INTEGER''),
      (''_int8'', ''BIGINT''),
      (''_float4'', ''REAL''),
      (''_float8'', ''DOUBLE PRECISION''),
      (''_char'', ''"CHAR"''),
      (''_varchar'', ''CHARACTER VARYING'')]\<close>

text \<open>
  \<^verbatim>\<open>_getArrayType\<close>. \<^verbatim>\<open>includes\<close> finds only a string that is a key of the table; on
  anything that is not a string, \<^verbatim>\<open>type.replace\<close> throws.
\<close>

definition getArrayType :: "cell \<Rightarrow> error + cell" where
  "getArrayType type =
     (case type of
        Str s \<Rightarrow>
          (if s \<in> set (map fst arrayTypes) then Inr (Str (the (map_of arrayTypes s)))
           else Inr (Str (replace_first CHR ''_'' '''' s)))
      | _ \<Rightarrow> Inl TypeError)"

text \<open>\<^verbatim>\<open>String.prototype.includes\<close>.\<close>

fun str_includes :: "string \<Rightarrow> string \<Rightarrow> bool" where
  "str_includes [] sub = (sub = [])"
| "str_includes (x # xs) sub = (prefix sub (x # xs) \<or> str_includes xs sub)"

text \<open>
  The callback of \<^verbatim>\<open>rows.map\<close> in getTableColumns. \<^verbatim>\<open>type.toUpperCase()\<close> and
  \<^verbatim>\<open>field.is_nullable.includes\<close> throw on a value that is not a string.
\<close>

definition column_descriptor :: "bool \<Rightarrow> row \<Rightarrow> error + obj" where
  "column_descriptor arrayRemap field =
     (let type0 = row_get field ''data_type'';
          isArray = (type0 = Str ''ARRAY'')
      in case (if isArray \<and> arrayRemap then getArrayType (row_get field ''udt_name'') else Inr type0) of
           Inl e \<Rightarrow> Inl e
         | Inr type \<Rightarrow>
             (case type of
                Str t \<Rightarrow>
                  (case row_get field ''is_nullable'' of
                     Str n \<Rightarrow>
                       Inr (map_of
                         [(''name'', row_get field ''column_name''),
                          (''key'', Null),
                          (''type'', Str (toUpperCase t)),
                          (''isArray'', Bool isArray),
                          (''schema'', row_get field ''table_schema''),
                          (''table'', row_get field ''table_name''),
                          (''numPrecision'', row_get field ''numeric_precision''),
                          (''datePrecision'', row_get field ''datetime_precision''),
                          (''charLength'', row_get field ''character_maximum_length''),
                          (''nullable'', Bool (str_includes n ''YES'')),
                          (''unsigned'', Null),
                          (''zerofill'', Null),
                          (''order'', row_get field ''ordinal_position''),
                          (''default'', row_get field ''column_default''),
                          (''charset'', row_get field ''character_set_name''),
                          (''collation'', row_get field ''collation_name''),
                          (''autoIncrement'', Bool False),
                          (''onUpdate'', Null),
                          (''comment'', Str '''')])
                   | _ \<Rightarrow> Inl TypeError)
              | _ \<Rightarrow> Inl TypeError))"

text \<open>\<^verbatim>\<open>rows.map\<close> with a callback that can throw.\<close>

fun map_throwing :: "('a \<Rightarrow> error + 'b) \<Rightarrow> 'a list \<Rightarrow> error + 'b list" where
  "map_throwing f [] = Inr []"
| "map_throwing f (x # xs) =
     (case f x of
        Inl e \<Rightarrow> Inl e
      | Inr y \<Rightarrow> (case map_throwing f xs of Inl e \<Rightarrow> Inl e | Inr ys \<Rightarrow> Inr (y # ys)))"

section \<open>The client, the driver and the results of raw\<close>

text \<open>
  The state of a client object: \<^verbatim>\<open>_schema\<close> (\<^verbatim>\<open>null\<close> after construction),
  \<^verbatim>\<open>_connection\<close> (\<open>None\<close> while \<^verbatim>\<open>undefined\<close>) and \<^verbatim>\<open>_poolSize\<close>.
\<close>

datatype handle = ClientHandle | PoolHandle

record client =
  c_schema :: cell
  c_connection :: "handle option"
  c_poolSize :: nat

text \<open>
  The parsed statement, as far as raw reads it: \<^verbatim>\<open>ast.from\<close> (\<open>None\<close> when falsy), and of
  its first element whether it has a \<^verbatim>\<open>schema\<close> property, \<^verbatim>\<open>name\<close> and \<^verbatim>\<open>as\<close>.
\<close>

record from_item =
  fi_schema :: "cell option"
  fi_name :: cell
  fi_as :: cell

record ast =
  ast_from :: "from_item list option"

text \<open>
  What the driver hands to the callback of \<^verbatim>\<open>query\<close>: \<^verbatim>\<open>rows\<close> and \<^verbatim>\<open>fields\<close>, each
  \<open>None\<close> when the result has no such property (the result of a text of several
  statements is an array). The elements of \<^verbatim>\<open>fields\<close> are field objects.
\<close>

record pg_result =
  res_rows :: "row list option"
  res_fields :: "obj list option"

text \<open>
  Everything outside the client is a parameter: the backend is a state \<open>'w\<close> that the
  driver's operations read and change. \<open>pg_query w h arrayMode text\<close> is
  \<^verbatim>\<open>connection.query({rowMode, text}, callback)\<close> up to the call of the callback;
  \<open>now\<close> is \<^verbatim>\<open>new Date()\<close> in milliseconds; \<open>parse\<close> is the parser of pgsql-ast-parser
  (\<open>None\<close> when it throws); \<open>pg_types\<close> is the table \<^verbatim>\<open>this.types\<close> built from the driver's
  builtins; \<open>columns_sql schema table\<close> is the text that the builder chain of
  getTableColumns renders (the builder methods are part of AntaresCore).
\<close>

record 'w driver =
  pg_connect :: "'w \<Rightarrow> (error + unit) \<times> 'w"
  pg_end :: "'w \<Rightarrow> handle \<Rightarrow> 'w"
  pg_query :: "'w \<Rightarrow> handle \<Rightarrow> bool \<Rightarrow> string \<Rightarrow> (error + pg_result) \<times> 'w"
  now :: "'w \<Rightarrow> int"
  parse :: "string \<Rightarrow> ast list option"
  pg_types :: "cell \<Rightarrow> cell"
  columns_sql :: "cell \<Rightarrow> cell \<Rightarrow> string"

text \<open>
  The object that raw resolves with for one statement. \<open>r_rows\<close> is \<open>None\<close> for
  \<^verbatim>\<open>false\<close>. \<open>r_keys\<close> is \<open>Some\<close> of the array when the object has a \<^verbatim>\<open>keys\<close> property;
  \<open>None\<close> would be an object without it.
\<close>

record result =
  r_rows :: "row list option"
  r_report :: cell
  r_fields :: "obj list"
  r_keys :: "obj list option"
  r_duration :: int

datatype raw_value = Single result | Many "result list"

text \<open>
  A promise: fulfilled, rejected, or never settled. The callback that raw gives to
  the driver is an async function; an exception in it outside a \<^verbatim>\<open>try\<close> block
  rejects only the callback's own promise, and the promise that raw awaits stays
  pending.
\<close>

datatype 'a outcome = Resolved 'a | Rejected error | Pending

record raw_args =
  a_nest :: bool
  a_details :: bool
  a_split :: bool

definition default_args :: raw_args where
  "default_args = \<lparr>a_nest = False, a_details = False, a_split = True\<rparr>"

text \<open>The type of raw, and of the calls to \<^verbatim>\<open>this.raw\<close> that the helpers below make.\<close>

type_synonym 'w raw_fn =
  "string \<Rightarrow> raw_args \<Rightarrow> client \<Rightarrow> 'w \<Rightarrow> raw_value outcome \<times> client \<times> 'w"

text \<open>\<^verbatim>\<open>await\<close> in an async function: a rejection of the awaited promise rejects the caller.\<close>

definition await ::
  "'a outcome \<times> client \<times> 'w \<Rightarrow> ('a \<Rightarrow> client \<Rightarrow> 'w \<Rightarrow> 'b outcome \<times> client \<times> 'w)
     \<Rightarrow> 'b outcome \<times> client \<times> 'w" where
  "await m k =
     (case m of
        (Resolved v, c, w) \<Rightarrow> k v c w
      | (Rejected e, c, w) \<Rightarrow> (Rejected e, c, w)
      | (Pending, c, w) \<Rightarrow> (Pending, c, w))"

text \<open>A synchronous exception in an async function rejects its promise.\<close>

definition settle :: "error + 'a \<Rightarrow> 'a outcome" where
  "settle r = (case r of Inl e \<Rightarrow> Rejected e | Inr v \<Rightarrow> Resolved v)"

text \<open>
  \<^verbatim>\<open>const { rows } = await this.raw(...)\<close> followed by \<^verbatim>\<open>rows.map\<close> or \<^verbatim>\<open>rows.reduce\<close>: an
  array of results has no \<^verbatim>\<open>rows\<close>, and \<^verbatim>\<open>false\<close> has no such method.
\<close>

definition rows_of :: "raw_value \<Rightarrow> error + row list" where
  "rows_of v =
     (case v of
        Single r \<Rightarrow> (case r_rows r of None \<Rightarrow> Inl TypeError | Some rows \<Rightarrow> Inr rows)
      | Many rs \<Rightarrow> Inl TypeError)"

section \<open>Connection management\<close>

definition connect :: "'w driver \<Rightarrow> client \<Rightarrow> 'w \<Rightarrow> unit outcome \<times> client \<times> 'w" where
  "connect dv c w =
     (if c_poolSize c = 0
      then (case pg_connect dv w of
              (Inl e, w') \<Rightarrow> (Rejected e, c, w')
            | (Inr u, w') \<Rightarrow> (Resolved (), c\<lparr>c_connection := Some ClientHandle\<rparr>, w'))
      else (Resolved (), c\<lparr>c_connection := Some PoolHandle\<rparr>, w))"

text \<open>destroy is synchronous: it throws when there is no connection object.\<close>

definition destroy :: "'w driver \<Rightarrow> client \<Rightarrow> 'w \<Rightarrow> (error + unit) \<times> client \<times> 'w" where
  "destroy dv c w =
     (case c_connection c of
        None \<Rightarrow> (Inl TypeError, c, w)
      | Some h \<Rightarrow> (Inr (), c, pg_end dv w h))"

text \<open>
  use: the assignment is immediate; the statement runs through \<^verbatim>\<open>this.raw\<close> with the
  default arguments.
\<close>

definition use :: "'w raw_fn \<Rightarrow> cell \<Rightarrow> client \<Rightarrow> 'w \<Rightarrow> raw_value outcome \<times> client \<times> 'w" where
  "use self schema c w =
     self (''SET search_path TO '' @ to_str schema) default_args (c\<lparr>c_schema := schema\<rparr>) w"

text \<open>
  A call of use that is not awaited: its promise is dropped. The statement is issued
  before the caller goes on; the model lets it finish there.
\<close>

definition use_unawaited :: "'w raw_fn \<Rightarrow> cell \<Rightarrow> client \<Rightarrow> 'w \<Rightarrow> client \<times> 'w" where
  "use_unawaited self schema c w = (case use self schema c w of (p, c', w') \<Rightarrow> (c', w'))"

section \<open>Introspection helpers used by raw\<close>

definition sq :: string where
  "sq = [CHR 0x27]"

text \<open>
  getTableColumns builds its statement with the query builder and runs it with
  \<^verbatim>\<open>run\<close>, both of AntaresCore. Modelled from the spec: \<^verbatim>\<open>run\<close> hands the rendered text to
  raw, with no arguments (the builder, like every component, funnels into the raw
  executor); the text itself is \<open>columns_sql\<close> of the driver record.
\<close>

definition getTableColumns ::
  "'w raw_fn \<Rightarrow> 'w driver \<Rightarrow> cell \<Rightarrow> cell \<Rightarrow> bool \<Rightarrow> client \<Rightarrow> 'w \<Rightarrow> obj list outcome \<times> client \<times> 'w" where
  "getTableColumns self dv schema table arrayRemap c w =
     await (self (columns_sql dv schema table) default_args c w)
       (\<lambda>v c' w'.
          (case rows_of v of
             Inl e \<Rightarrow> (Rejected e, c', w')
           | Inr rows \<Rightarrow> (settle (map_throwing (column_descriptor arrayRemap) rows), c', w')))"

definition tableIndexes_sql :: "cell \<Rightarrow> string" where
  \<open>tableIndexes_sql table =
     ''WITH ndx_list AS ('' @ nl
     @ ''         SELECT pg_index.indexrelid, pg_class.oid'' @ nl
     @ ''         FROM pg_index, pg_class'' @ nl
     @ ''         WHERE pg_class.relname = '' @ sq @ to_str table @ sq @ '' AND pg_class.oid = pg_index.indrelid), ndx_cols AS ('' @ nl
     @ ''         SELECT pg_class.relname, UNNEST(i.indkey) AS col_ndx, CASE i.indisprimary WHEN TRUE THEN '' @ sq @ ''PRIMARY'' @ sq @ '' ELSE CASE i.indisunique WHEN TRUE THEN '' @ sq @ ''UNIQUE'' @ sq @ '' ELSE '' @ sq @ ''INDEX'' @ sq @ '' END END AS CONSTRAINT_TYPE, pg_class.oid'' @ nl
     @ ''         FROM pg_class'' @ nl
     @ ''         JOIN pg_index i ON (pg_class.oid = i.indexrelid)'' @ nl
     @ ''         JOIN ndx_list ON (pg_class.oid = ndx_list.indexrelid)'' @ nl
     @ ''         WHERE pg_table_is_visible(pg_class.oid))'' @ nl
     @ ''         SELECT ndx_cols.relname AS CONSTRAINT_NAME, ndx_cols.CONSTRAINT_TYPE, a.attname AS COLUMN_NAME'' @ nl
     @ ''         FROM pg_attribute a'' @ nl
     @ ''         JOIN ndx_cols ON (a.attnum = ndx_cols.col_ndx)'' @ nl
     @ ''         JOIN ndx_list ON (ndx_list.oid = a.attrelid AND ndx_list.indexrelid = ndx_cols.oid)'' @ nl
     @ ''      ''\<close>

definition index_descriptor :: "row \<Rightarrow> obj" where
  "index_descriptor row =
     map_of
       [(''name'', row_get row ''constraint_name''),
        (''column'', row_get row ''column_name''),
        (''indexType'', Null),
        (''type'', row_get row ''constraint_type''),
        (''cardinality'', Null),
        (''comment'', Str ''''),
        (''indexComment'', Str '''')]"

definition getTableIndexes ::
  "'w raw_fn \<Rightarrow> cell \<Rightarrow> cell \<Rightarrow> client \<Rightarrow> 'w \<Rightarrow> obj list outcome \<times> client \<times> 'w" where
  "getTableIndexes self schema table c w =
     (case (if schema \<noteq> Str ''public'' then use_unawaited self schema c w else (c, w)) of
        (c1, w1) \<Rightarrow>
          await (self (tableIndexes_sql table) default_args c1 w1)
            (\<lambda>v c' w'.
               (case rows_of v of
                  Inl e \<Rightarrow> (Rejected e, c', w')
                | Inr rows \<Rightarrow> (Resolved (map index_descriptor rows), c', w'))))"

definition tableByIDs_sql :: "string \<Rightarrow> string" where
  \<open>tableByIDs_sql ids =
     nl
     @ ''         SELECT relid AS tableid, relname, schemaname FROM pg_statio_all_tables WHERE relid IN ('' @ ids @ '') '' @ nl
     @ ''         UNION'' @ nl
     @ ''         SELECT pg_class.oid AS tableid,relname, nspname AS schemaname FROM pg_class JOIN pg_namespace ON pg_namespace.oid = pg_class.relnamespace WHERE pg_class.oid IN ('' @ ids @ '')'' @ nl
     @ ''      ''\<close>

text \<open>
  The object that getTableByIDs builds: from the key \<^verbatim>\<open>tableid\<close>, as a property name, to
  \<^verbatim>\<open>{table, schema}\<close>.
\<close>

type_synonym tables_info = "string \<rightharpoonup> obj"

definition tables_info_step :: "tables_info \<Rightarrow> row \<Rightarrow> tables_info" where
  "tables_info_step acc entry =
     acc(to_str (row_get entry ''tableid'') \<mapsto>
           map_of [(''table'', row_get entry ''relname''), (''schema'', row_get entry ''schemaname'')])"

text \<open>getTableByIDs; \<open>None\<close> is the \<^verbatim>\<open>undefined\<close> it returns for an empty \<open>ids\<close>.\<close>

definition getTableByIDs ::
  "'w raw_fn \<Rightarrow> string \<Rightarrow> client \<Rightarrow> 'w \<Rightarrow> tables_info option outcome \<times> client \<times> 'w" where
  "getTableByIDs self ids c w =
     (if ids = [] then (Resolved None, c, w)
      else await (self (tableByIDs_sql ids) default_args c w)
             (\<lambda>v c' w'.
                (case rows_of v of
                   Inl e \<Rightarrow> (Rejected e, c', w')
                 | Inr rows \<Rightarrow> (Resolved (Some (foldl tables_info_step Map.empty rows)), c', w'))))"

definition keyUsage_sql :: "cell \<Rightarrow> cell \<Rightarrow> string" where
  \<open>keyUsage_sql schema table =
     nl
     @ ''         SELECT '' @ nl
     @ ''            tc.table_schema, '' @ nl
     @ ''            tc.constraint_name, '' @ nl
     @ ''            tc.table_name, '' @ nl
     @ ''            kcu.column_name, '' @ nl
     @ ''            kcu.position_in_unique_constraint, '' @ nl
     @ ''            kcu.ordinal_position, '' @ nl
     @ ''            ccu.table_schema AS foreign_table_schema,'' @ nl
     @ ''            ccu.table_name AS foreign_table_name,'' @ nl
     @ ''            ccu.column_name AS foreign_column_name,'' @ nl
     @ ''            rc.update_rule,'' @ nl
     @ ''            rc.delete_rule'' @ nl
     @ ''         FROM information_schema.table_constraints AS tc '' @ nl
     @ ''         JOIN information_schema.key_column_usage AS kcu'' @ nl
     @ ''            ON tc.constraint_name = kcu.constraint_name'' @ nl
     @ ''            AND tc.table_schema = kcu.table_schema'' @ nl
     @ ''         JOIN information_schema.constraint_column_usage AS ccu'' @ nl
     @ ''            ON ccu.constraint_name = tc.constraint_name'' @ nl
     @ ''            AND ccu.table_schema = tc.table_schema'' @ nl
     @ ''         JOIN information_schema.referential_constraints AS rc '' @ nl
     @ ''            ON rc.constraint_name = kcu.constraint_name'' @ nl
     @ ''         WHERE tc.constraint_type = '' @ sq @ ''FOREIGN KEY'' @ sq @ '' AND tc.table_schema = '' @ sq @ to_str schema @ sq @ nl
     @ ''         AND tc.table_name = '' @ sq @ to_str table @ sq @ nl
     @ ''      ''\<close>

definition key_usage_descriptor :: "row \<Rightarrow> obj" where
  "key_usage_descriptor field =
     map_of
       [(''schema'', row_get field ''table_schema''),
        (''table'', row_get field ''table_name''),
        (''field'', row_get field ''column_name''),
        (''position'', row_get field ''ordinal_position''),
        (''constraintPosition'', row_get field ''position_in_unique_constraint''),
        (''constraintName'', row_get field ''constraint_name''),
        (''refSchema'', row_get field ''foreign_table_schema''),
        (''refTable'', row_get field ''foreign_table_name''),
        (''refField'', row_get field ''foreign_column_name''),
        (''onUpdate'', row_get field ''update_rule''),
        (''onDelete'', row_get field ''delete_rule'')]"

definition getKeyUsage ::
  "'w raw_fn \<Rightarrow> cell \<Rightarrow> cell \<Rightarrow> client \<Rightarrow> 'w \<Rightarrow> obj list outcome \<times> client \<times> 'w" where
  "getKeyUsage self schema table c w =
     await (self (keyUsage_sql schema table) default_args c w)
       (\<lambda>v c' w'.
          (case rows_of v of
             Inl e \<Rightarrow> (Rejected e, c', w')
           | Inr rows \<Rightarrow> (Resolved (map key_usage_descriptor rows), c', w')))"

section \<open>raw\<close>

text \<open>\<^verbatim>\<open>sql.split(';')\<close>\<close>

fun split_on :: "char \<Rightarrow> string \<Rightarrow> string list" where
  "split_on c [] = [] # []"
| "split_on c (x # xs) =
     (if x = c then [] # split_on c xs
      else (case split_on c xs of [] \<Rightarrow> [x] # [] | y # ys \<Rightarrow> (x # y) # ys))"

text \<open>The elements of a list without repetitions, first occurrences kept, in order.\<close>

definition uniq :: "'a list \<Rightarrow> 'a list" where
  "uniq xs = rev (remdups (rev xs))"

text \<open>\<^verbatim>\<open>[ast] = parse(query)\<close> in its \<^verbatim>\<open>try\<close> block: \<open>None\<close> is an \<open>ast\<close> left undefined.\<close>

definition first_ast :: "'w driver \<Rightarrow> string \<Rightarrow> ast option" where
  "first_ast dv query =
     (case parse dv query of None \<Rightarrow> None | Some [] \<Rightarrow> None | Some (a # _) \<Rightarrow> Some a)"

text \<open>
  \<^verbatim>\<open>ast && ast.from\<close> and then \<^verbatim>\<open>ast.from[0]\<close>: \<open>Inr None\<close> when the guard is falsy. An
  empty \<^verbatim>\<open>from\<close> array is truthy; reading a property of its element 0 throws.
\<close>

definition from0 :: "ast option \<Rightarrow> error + from_item option" where
  "from0 a =
     (case a of
        None \<Rightarrow> Inr None
      | Some t \<Rightarrow>
          (case ast_from t of
             None \<Rightarrow> Inr None
           | Some [] \<Rightarrow> Inl TypeError
           | Some (f # _) \<Rightarrow> Inr (Some f)))"

text \<open>\<^verbatim>\<open>tablesInfo[tableID]\<close>: throws when \<open>tablesInfo\<close> is undefined.\<close>

definition ti_lookup :: "tables_info option \<Rightarrow> cell \<Rightarrow> error + obj option" where
  "ti_lookup ti tableID =
     (case ti of None \<Rightarrow> Inl TypeError | Some info \<Rightarrow> Inr (info (to_str tableID)))"

text \<open>Nest mode: \<^verbatim>\<open>row.reduce((acc, curr, i) => ..., {})\<close> on one array-shaped row.\<close>

fun nest_row :: "tables_info option \<Rightarrow> obj list \<Rightarrow> cell list \<Rightarrow> nat \<Rightarrow> obj \<Rightarrow> error + obj" where
  "nest_row ti flds [] i acc = Inr acc"
| "nest_row ti flds (v # vs) i acc =
     (if length flds \<le> i then Inl TypeError
      else (case ti_lookup ti (get (flds ! i) ''tableID'') of
              Inl e \<Rightarrow> Inl e
            | Inr info \<Rightarrow>
                (let table = (case info of None \<Rightarrow> Str '''' | Some t \<Rightarrow> get t ''table'');
                     key = (if truthy table then to_str table @ ''.'' else '''')
                           @ to_str (get (flds ! i) ''name'')
                 in nest_row ti flds vs (Suc i) (acc(key \<mapsto> v)))))"

text \<open>\<^verbatim>\<open>rows.map(row => row.reduce(...))\<close>: an object has no \<^verbatim>\<open>reduce\<close>.\<close>

definition nest_rows :: "tables_info option \<Rightarrow> obj list \<Rightarrow> row list \<Rightarrow> error + row list" where
  "nest_rows ti flds rows =
     map_throwing
       (\<lambda>row. case row of
                 RowObj ob \<Rightarrow> Inl TypeError
               | RowArr vs \<Rightarrow>
                   (case nest_row ti flds vs 0 Map.empty of
                      Inl e \<Rightarrow> Inl e
                    | Inr ob \<Rightarrow> Inr (RowObj ob)))
       rows"

text \<open>
  The part of the callback under \<^verbatim>\<open>if (args.nest)\<close>, with its \<^verbatim>\<open>else\<close>: the pair of
  \<open>queryResult\<close> and \<open>tablesInfo\<close>, or \<open>None\<close> when an exception or a rejected
  getTableByIDs ends the callback.
\<close>

definition nest_part ::
  "'w raw_fn \<Rightarrow> raw_args \<Rightarrow> pg_result \<Rightarrow> client \<Rightarrow> 'w
     \<Rightarrow> (row list option \<times> tables_info option) option \<times> client \<times> 'w" where
  "nest_part self args res c w =
     (if a_nest args
      then (case res_fields res of
              None \<Rightarrow> (None, c, w)
            | Some flds \<Rightarrow>
                (let tablesID = join '','' (map arr_str (uniq (map (\<lambda>f. get f ''tableID'') flds)))
                 in case getTableByIDs self tablesID c w of
                      (Resolved tablesInfo, c1, w1) \<Rightarrow>
                        (case res_rows res of
                           None \<Rightarrow> (None, c1, w1)
                         | Some rows \<Rightarrow>
                             (case nest_rows tablesInfo flds rows of
                                Inl e \<Rightarrow> (None, c1, w1)
                              | Inr queryResult \<Rightarrow> (Some (Some queryResult, tablesInfo), c1, w1)))
                    | (Rejected e, c1, w1) \<Rightarrow> (None, c1, w1)
                    | (Pending, c1, w1) \<Rightarrow> (None, c1, w1)))
      else (Some (res_rows res, None), c, w))"

text \<open>The callback of \<^verbatim>\<open>fields.map\<close> that builds \<open>remappedFields\<close>.\<close>

definition remap_field ::
  "'w driver \<Rightarrow> raw_args \<Rightarrow> cell \<Rightarrow> ast option \<Rightarrow> tables_info option \<Rightarrow> obj \<Rightarrow> error + obj" where
  "remap_field dv args this_schema a tablesInfo field =
     (case from0 a of
        Inl e \<Rightarrow> Inl e
      | Inr fr \<Rightarrow>
          (let schema0 = (case fr of
                            None \<Rightarrow> this_schema
                          | Some f \<Rightarrow> (case fi_schema f of None \<Rightarrow> this_schema | Some s \<Rightarrow> s));
               table0 = (case fr of None \<Rightarrow> Null | Some f \<Rightarrow> fi_name f)
           in case (if a_nest args
                    then (case ti_lookup tablesInfo (get field ''tableID'') of
                            Inl e \<Rightarrow> Inl e
                          | Inr None \<Rightarrow> Inr (this_schema, Null)
                          | Inr (Some info) \<Rightarrow> Inr (get info ''schema'', get info ''table''))
                    else Inr (schema0, table0)) of
                Inl e \<Rightarrow> Inl e
              | Inr (schema, table) \<Rightarrow>
                  Inr (field ++ map_of
                    [(''name'', get field ''name''),
                     (''alias'', get field ''name''),
                     (''schema'', schema),
                     (''table'', table),
                     (''tableAlias'', (case fr of None \<Rightarrow> Null | Some f \<Rightarrow> fi_as f)),
                     (''orgTable'', (case fr of None \<Rightarrow> Null | Some f \<Rightarrow> fi_name f)),
                     (''type'', js_or (pg_types dv (get field ''dataTypeID'')) (get field ''format''))])))"

text \<open>\<open>paramsArr\<close>: the distinct pairs of \<open>table\<close> and \<open>schema\<close> of the fields.\<close>

definition paramsArr :: "obj list \<Rightarrow> (cell \<times> cell) list" where
  "paramsArr remappedFields = uniq (map (\<lambda>f. (get f ''table'', get f ''schema'')) remappedFields)"

text \<open>The callback of \<^verbatim>\<open>remappedFields.map\<close> that merges the details of one table.\<close>

definition merge_details :: "obj list \<Rightarrow> obj list \<Rightarrow> cell \<Rightarrow> cell \<Rightarrow> obj \<Rightarrow> obj" where
  "merge_details columns indexes ptable pschema field =
     (let detailedField = List.find (\<lambda>f. get f ''name'' = get field ''name'') columns;
          fieldIndex = List.find (\<lambda>i. get i ''column'' = get field ''name'') indexes
      in if get field ''table'' = ptable \<and> get field ''schema'' = pschema
         then (let field1 =
                     (case detailedField of
                        None \<Rightarrow> field
                      | Some d \<Rightarrow>
                          (field ++ d)(''length'' \<mapsto>
                             js_or (js_or (js_or (get d ''numPrecision'') (get d ''charLength''))
                                      (get d ''datePrecision'')) Null));
                    field2 =
                     (case fieldIndex of
                        None \<Rightarrow> field1
                      | Some i \<Rightarrow>
                          field1(''key'' \<mapsto>
                             Str (if get i ''type'' = Str ''PRIMARY'' then ''pri''
                                  else if get i ''type'' = Str ''UNIQUE'' then ''uni''
                                  else ''mul'')))
               in field2)
         else field)"

text \<open>
  \<^verbatim>\<open>reject(err)\<close> in a \<^verbatim>\<open>catch\<close> block settles the promise of raw and does not end the
  callback, which goes on to the next lookup; a later \<^verbatim>\<open>reject\<close> or \<^verbatim>\<open>resolve\<close> has no
  effect. The loop carries the first rejection.
\<close>

definition first_rejection :: "error option \<Rightarrow> error \<Rightarrow> error option" where
  "first_rejection rej e = (case rej of None \<Rightarrow> Some e | Some e0 \<Rightarrow> Some e0)"

text \<open>
  The first \<^verbatim>\<open>try\<close> block of the loop over \<open>paramsArr\<close> (column details). The fields are
  \<open>None\<close> when an awaited lookup never settles, which ends the callback.
\<close>

definition column_details ::
  "'w raw_fn \<Rightarrow> 'w driver \<Rightarrow> cell \<Rightarrow> cell \<Rightarrow> obj list \<Rightarrow> error option \<Rightarrow> client \<Rightarrow> 'w
     \<Rightarrow> (obj list option \<times> error option) \<times> client \<times> 'w" where
  "column_details self dv ptable pschema flds rej c w =
     (case getTableColumns self dv pschema ptable False c w of
        (Pending, c1, w1) \<Rightarrow> ((None, rej), c1, w1)
      | (Rejected e, c1, w1) \<Rightarrow> ((Some flds, first_rejection rej e), c1, w1)
      | (Resolved columns, c1, w1) \<Rightarrow>
          (case getTableIndexes self pschema ptable c1 w1 of
             (Pending, c2, w2) \<Rightarrow> ((None, rej), c2, w2)
           | (Rejected e, c2, w2) \<Rightarrow> ((Some flds, first_rejection rej e), c2, w2)
           | (Resolved indexes, c2, w2) \<Rightarrow>
               ((Some (map (merge_details columns indexes ptable pschema) flds), rej), c2, w2)))"

text \<open>The second \<^verbatim>\<open>try\<close> block (key usage).\<close>

definition key_usage ::
  "'w raw_fn \<Rightarrow> cell \<Rightarrow> cell \<Rightarrow> obj list \<Rightarrow> error option \<Rightarrow> client \<Rightarrow> 'w
     \<Rightarrow> (obj list option \<times> error option) \<times> client \<times> 'w" where
  "key_usage self ptable pschema keysArr rej c w =
     (case getKeyUsage self pschema ptable c w of
        (Pending, c1, w1) \<Rightarrow> ((None, rej), c1, w1)
      | (Rejected e, c1, w1) \<Rightarrow> ((Some keysArr, first_rejection rej e), c1, w1)
      | (Resolved response, c1, w1) \<Rightarrow> ((Some (keysArr @ response), rej), c1, w1))"

text \<open>\<^verbatim>\<open>for (const paramObj of paramsArr)\<close>, pairs of \<open>table\<close> and \<open>schema\<close>.\<close>

fun enrich ::
  "'w raw_fn \<Rightarrow> 'w driver \<Rightarrow> (cell \<times> cell) list \<Rightarrow> obj list \<Rightarrow> obj list \<Rightarrow> error option
     \<Rightarrow> client \<Rightarrow> 'w \<Rightarrow> ((obj list \<times> obj list) option \<times> error option) \<times> client \<times> 'w" where
  "enrich self dv [] flds keysArr rej c w = ((Some (flds, keysArr), rej), c, w)"
| "enrich self dv ((ptable, pschema) # ps) flds keysArr rej c w =
     (if \<not> truthy ptable \<or> \<not> truthy pschema then enrich self dv ps flds keysArr rej c w
      else (case column_details self dv ptable pschema flds rej c w of
              ((None, rej1), c1, w1) \<Rightarrow> ((None, rej1), c1, w1)
            | ((Some fields1, rej1), c1, w1) \<Rightarrow>
                (case key_usage self ptable pschema keysArr rej1 c1 w1 of
                   ((None, rej2), c2, w2) \<Rightarrow> ((None, rej2), c2, w2)
                 | ((Some keys2, rej2), c2, w2) \<Rightarrow> enrich self dv ps fields1 keys2 rej2 c2 w2)))"

text \<open>The part of the callback under \<^verbatim>\<open>if (args.details)\<close>.\<close>

definition details_part ::
  "'w raw_fn \<Rightarrow> 'w driver \<Rightarrow> raw_args \<Rightarrow> obj list \<Rightarrow> client \<Rightarrow> 'w
     \<Rightarrow> ((obj list \<times> obj list) option \<times> error option) \<times> client \<times> 'w" where
  "details_part self dv args remappedFields c w =
     (if a_details args \<and> remappedFields \<noteq> []
      then enrich self dv (paramsArr remappedFields) remappedFields [] None c w
      else ((Some (remappedFields, []), None), c, w))"

definition is_array_row :: "row \<Rightarrow> bool" where
  "is_array_row el = (case el of RowArr vs \<Rightarrow> True | RowObj ob \<Rightarrow> False)"

text \<open>The object passed to \<^verbatim>\<open>resolve\<close>.\<close>

definition make_result :: "row list option \<Rightarrow> obj list \<Rightarrow> obj list \<Rightarrow> int \<Rightarrow> result" where
  "make_result queryResult remappedFields keysArr duration =
     \<lparr>r_rows = (case queryResult of
                  None \<Rightarrow> None
                | Some rows \<Rightarrow> Some (if list_ex is_array_row rows then [] else rows)),
      r_report = (case queryResult of None \<Rightarrow> Undefined | Some rows \<Rightarrow> Bool False),
      r_fields = remappedFields,
      r_keys = Some keysArr,
      r_duration = duration\<rparr>"

text \<open>
  The callback of \<^verbatim>\<open>this._connection.query\<close> on a result without error. Outside the
  \<^verbatim>\<open>try\<close> blocks an exception leaves the promise of raw as it is: pending, unless a
  \<^verbatim>\<open>catch\<close> block has rejected it before.
\<close>

definition on_result ::
  "'w raw_fn \<Rightarrow> 'w driver \<Rightarrow> raw_args \<Rightarrow> string \<Rightarrow> int \<Rightarrow> int \<Rightarrow> pg_result \<Rightarrow> client \<Rightarrow> 'w
     \<Rightarrow> result outcome \<times> client \<times> 'w" where
  "on_result self dv args query timeStart timeStop res c w =
     (let a = first_ast dv query
      in case nest_part self args res c w of
           (None, c1, w1) \<Rightarrow> (Pending, c1, w1)
         | (Some (queryResult, tablesInfo), c1, w1) \<Rightarrow>
             (case (case res_fields res of
                      None \<Rightarrow> Inr []
                    | Some flds \<Rightarrow>
                        map_throwing (remap_field dv args (c_schema c1) a tablesInfo) flds) of
                Inl e \<Rightarrow> (Pending, c1, w1)
              | Inr remappedFields \<Rightarrow>
                  (case details_part self dv args remappedFields c1 w1 of
                     ((None, None), c2, w2) \<Rightarrow> (Pending, c2, w2)
                   | ((None, Some e), c2, w2) \<Rightarrow> (Rejected e, c2, w2)
                   | ((Some (flds, keysArr), Some e), c2, w2) \<Rightarrow> (Rejected e, c2, w2)
                   | ((Some (flds, keysArr), None), c2, w2) \<Rightarrow>
                       (Resolved (make_result queryResult flds keysArr (timeStop - timeStart)),
                        c2, w2))))"

text \<open>
  One turn of the loop over the statements, for a non-empty statement: the promise
  around \<^verbatim>\<open>this._connection.query\<close>. Reading \<^verbatim>\<open>query\<close> of an undefined connection
  throws in the executor of the promise, which rejects it.
\<close>

definition run_query ::
  "'w raw_fn \<Rightarrow> 'w driver \<Rightarrow> raw_args \<Rightarrow> string \<Rightarrow> client \<Rightarrow> 'w \<Rightarrow> result outcome \<times> client \<times> 'w" where
  "run_query self dv args query c w =
     (let timeStart = now dv w
      in case c_connection c of
           None \<Rightarrow> (Rejected TypeError, c, w)
         | Some h \<Rightarrow>
             (case pg_query dv w h (a_nest args) query of
                (Inl err, w1) \<Rightarrow> (Rejected err, c, w1)
              | (Inr res, w1) \<Rightarrow> on_result self dv args query timeStart (now dv w1) res c w1))"

text \<open>\<^verbatim>\<open>return resultsArr.length === 1 ? resultsArr[0] : resultsArr\<close>\<close>

definition raw_return :: "result list \<Rightarrow> raw_value" where
  "raw_return resultsArr =
     (case resultsArr of [r] \<Rightarrow> Single r | _ \<Rightarrow> Many resultsArr)"

text \<open>\<^verbatim>\<open>for (const query of queries)\<close>, with \<open>resultsArr\<close> as accumulator.\<close>

fun raw_loop ::
  "'w raw_fn \<Rightarrow> 'w driver \<Rightarrow> raw_args \<Rightarrow> string list \<Rightarrow> result list \<Rightarrow> client \<Rightarrow> 'w
     \<Rightarrow> raw_value outcome \<times> client \<times> 'w" where
  "raw_loop self dv args [] resultsArr c w = (Resolved (raw_return resultsArr), c, w)"
| "raw_loop self dv args (query # queries) resultsArr c w =
     (if query = [] then raw_loop self dv args queries resultsArr c w
      else (case run_query self dv args query c w of
              (Resolved r, c1, w1) \<Rightarrow> raw_loop self dv args queries (resultsArr @ [r]) c1 w1
            | (Rejected e, c1, w1) \<Rightarrow> (Rejected e, c1, w1)
            | (Pending, c1, w1) \<Rightarrow> (Pending, c1, w1)))"

text \<open>
  The body of raw, with \<^verbatim>\<open>this.raw\<close> as the parameter \<open>self\<close> for the calls that use
  and the introspection helpers make. The line that logs the text in development
  mode has no effect on the client and is left out.
\<close>

definition raw_body :: "'w raw_fn \<Rightarrow> 'w driver \<Rightarrow> 'w raw_fn" where
  "raw_body self dv sql args c w =
     (case (if a_nest args \<and> c_schema c \<noteq> Str ''public''
            then use_unawaited self (c_schema c) c w else (c, w)) of
        (c1, w1) \<Rightarrow>
          (let queries = (if a_split args then split_on CHR '';'' sql else [sql])
           in raw_loop self dv args queries [] c1 w1))"

text \<open>
  Every call that use and the helpers make to \<^verbatim>\<open>this.raw\<close> carries the default
  arguments, and with neither \<open>nest\<close> nor \<open>details\<close> the body of raw makes no call to
  them. So the recursion has depth one: \<open>raw_inner\<close> is raw at these inner calls, where
  its own \<open>self\<close> is never reached, and \<open>raw\<close> is raw.
\<close>

definition raw_inner :: "'w driver \<Rightarrow> 'w raw_fn" where
  "raw_inner dv = raw_body (\<lambda>sql args c w. (Pending, c, w)) dv"

definition raw :: "'w driver \<Rightarrow> 'w raw_fn" where
  "raw dv = raw_body (raw_inner dv) dv"

text \<open>alterTable: the text goes to raw with the default arguments.\<close>

definition alterTable ::
  "'w driver \<Rightarrow> type_group list \<Rightarrow> alter_params \<Rightarrow> client \<Rightarrow> 'w \<Rightarrow> raw_value outcome \<times> client \<times> 'w" where
  "alterTable dv dataTypes params c w =
     (case alterTable_sql dataTypes (c_schema c) params of
        Inl e \<Rightarrow> (Rejected e, c, w)
      | Inr sql \<Rightarrow> raw dv sql default_args c w)"

section \<open>Vocabulary of the properties\<close>

definition empty_ddl :: ddl where
  "empty_ddl = \<lparr>alterColumns = [], renameColumns = [], createSequences = [], manageIndexes = []\<rparr>"

text \<open>The \<^verbatim>\<open>ALTER COLUMN\<close> sub-clauses among the clauses of the \<^verbatim>\<open>ALTER TABLE\<close> statement.\<close>

definition alter_column_clauses :: "ddl \<Rightarrow> string list" where
  "alter_column_clauses d = filter (prefix ''ALTER COLUMN '') (alterColumns d)"

text \<open>The sub-clauses of one column, recognised by its quoted original name.\<close>

definition alter_column_clauses_of :: "string \<Rightarrow> ddl \<Rightarrow> string list" where
  \<open>alter_column_clauses_of orgName d =
     filter (prefix (''ALTER COLUMN "'' @ orgName @ ''" '')) (alterColumns d)\<close>

text \<open>
  The clauses that one turn of the loop over the changes pushes to \<open>alterColumns\<close>, when
  the type of the change is in the catalog.
\<close>

definition change_clauses :: "type_group list \<Rightarrow> string \<Rightarrow> column \<Rightarrow> string list" where
  "change_clauses dataTypes table c =
     [alter_type_clause (projr (column_length dataTypes c)) c,
      alter_null_clause c,
      alter_default_clause c]
     @ (if is_serial (col_type c) then [alter_nextval_clause table c] else [])"

text \<open>The clause of one addition, when its type is in the catalog.\<close>

definition add_clause :: "type_group list \<Rightarrow> column \<Rightarrow> string" where
  "add_clause dataTypes a = add_column_clause (projr (column_length dataTypes a)) a"

text \<open>
  A diff with additions only: some column additions, index additions that are neither
  \<^verbatim>\<open>PRIMARY\<close> nor \<^verbatim>\<open>UNIQUE\<close>, foreign key additions; no change, no deletion, no new
  table name.
\<close>

definition only_additions :: "alter_params \<Rightarrow> bool" where
  "only_additions p =
     (p_additions p \<noteq> [] \<and> p_changes p = [] \<and> p_deletions p = []
      \<and> list_all (\<lambda>i. ix_type i \<noteq> ''PRIMARY'' \<and> ix_type i \<noteq> ''UNIQUE'')
            (ic_additions (p_indexChanges p))
      \<and> ic_changes (p_indexChanges p) = [] \<and> ic_deletions (p_indexChanges p) = []
      \<and> fc_changes (p_foreignChanges p) = [] \<and> fc_deletions (p_foreignChanges p) = []
      \<and> \<not> truthy (opt_name (p_options p)))"

definition known_types :: "type_group list \<Rightarrow> column list \<Rightarrow> bool" where
  "known_types dataTypes cs = list_all (\<lambda>a. getTypeInfo dataTypes (col_type a) \<noteq> None) cs"

subsection \<open>Concrete inputs\<close>

definition example_catalog :: "type_group list" where
  "example_catalog =
     [\<lparr>tg_group = ''integer'',
       tg_types = [\<lparr>ti_name = ''INTEGER'', ti_length = False\<rparr>,
                   \<lparr>ti_name = ''SERIAL'', ti_length = False\<rparr>]\<rparr>,
      \<lparr>tg_group = ''string'',
       tg_types = [\<lparr>ti_name = ''VARCHAR'', ti_length = True\<rparr>]\<rparr>]"

definition example_column :: column where
  "example_column =
     \<lparr>col_name = ''c'', col_orgName = ''c'', col_type = ''integer'', col_numLength = Null,
      col_charLength = Null, col_datePrecision = Null, col_isArray = False,
      col_unsigned = False, col_zerofill = False, col_nullable = True,
      col_autoIncrement = False, col_default = Null, col_comment = Null,
      col_collation = Null, col_onUpdate = Null\<rparr>"

definition example_index :: index where
  "example_index =
     \<lparr>ix_name = ''i'', ix_oldName = ''i'', ix_fields = [''c''], ix_type = ''INDEX'',
      ix_oldType = ''INDEX''\<rparr>"

definition no_options :: table_options where
  "no_options =
     \<lparr>opt_comment = None, opt_engine = None, opt_autoIncrement = None, opt_collation = None,
      opt_name = Undefined\<rparr>"

text \<open>One column and one plain index on it are added to table \<open>t\<close>.\<close>

definition example_additions :: alter_params where
  "example_additions =
     \<lparr>p_table = ''t'', p_additions = [example_column], p_deletions = [], p_changes = [],
      p_indexChanges = \<lparr>ic_additions = [example_index], ic_changes = [], ic_deletions = []\<rparr>,
      p_foreignChanges = \<lparr>fc_additions = [], fc_changes = [], fc_deletions = []\<rparr>,
      p_options = no_options\<rparr>"

text \<open>Column \<open>id\<close> of table \<open>t\<close> is changed to \<^verbatim>\<open>SERIAL\<close>, column \<open>v\<close> to \<^verbatim>\<open>varchar(20)\<close>.\<close>

definition example_changes :: alter_params where
  "example_changes =
     \<lparr>p_table = ''t'', p_additions = [], p_deletions = [],
      p_changes =
        [example_column\<lparr>col_name := ''id'', col_orgName := ''id'', col_type := ''SERIAL'',
                        col_nullable := False\<rparr>,
         example_column\<lparr>col_name := ''v'', col_orgName := ''v'', col_type := ''varchar'',
                        col_charLength := Num 20\<rparr>],
      p_indexChanges = \<lparr>ic_additions = [], ic_changes = [], ic_deletions = []\<rparr>,
      p_foreignChanges = \<lparr>fc_additions = [], fc_changes = [], fc_deletions = []\<rparr>,
      p_options = no_options\<rparr>"

text \<open>
  The descriptor of the spec's round trip: select list \<open>a\<close>, \<open>b\<close>, target \<open>t\<close>, predicate
  \<open>id = 1\<close>, limit 10.
\<close>

definition example_query :: "cell query" where
  "example_query =
     \<lparr>q_select = [Str ''a'', Str ''b''], q_from = Str ''t'', q_schema = Str '''',
      q_where = [Str ''id = 1''], q_groupBy = [], q_orderBy = [], q_limit = [Num 10],
      q_update = [], q_insert = [], q_delete = False\<rparr>"

text \<open>A bare update with a limit configured.\<close>

definition example_update :: "cell query" where
  "example_update =
     \<lparr>q_select = [], q_from = Str ''t'', q_schema = Str '''', q_where = [],
      q_groupBy = [], q_orderBy = [], q_limit = [Num 5], q_update = [Str ''a = 1''],
      q_insert = [], q_delete = False\<rparr>"

text \<open>
  Rows of \<^verbatim>\<open>information_schema.columns\<close> for two array columns: one of a type of the
  table of array types, one of a type outside it.
\<close>

definition example_column_rows :: "row list" where
  "example_column_rows =
     [RowObj (map_of [(''column_name'', Str ''xs''), (''data_type'', Str ''ARRAY''),
                      (''udt_name'', Str ''_int4''), (''is_nullable'', Str ''YES'')]),
      RowObj (map_of [(''column_name'', Str ''ys''), (''data_type'', Str ''ARRAY''),
                      (''udt_name'', Str ''_custom''), (''is_nullable'', Str ''NO'')])]"

text \<open>
  A backend for the concrete runs: its state is a clock in milliseconds, every
  statement takes three of them and returns one row with one field, and the parser
  recognises nothing.
\<close>

definition example_pg_field :: obj where
  "example_pg_field =
     map_of [(''name'', Str ''n''), (''tableID'', Num 0), (''dataTypeID'', Num 23),
             (''format'', Str ''text'')]"

definition example_pg_result :: pg_result where
  "example_pg_result =
     \<lparr>res_rows = Some [RowObj (map_of [(''n'', Num 1)])], res_fields = Some [example_pg_field]\<rparr>"

definition example_driver :: "nat driver" where
  "example_driver =
     \<lparr>pg_connect = (\<lambda>w. (Inr (), w)),
      pg_end = (\<lambda>w h. w),
      pg_query = (\<lambda>w h arrayMode text. (Inr example_pg_result, w + 3)),
      now = int,
      parse = (\<lambda>text. None),
      pg_types = (\<lambda>oid. if oid = Num 23 then Str ''INT4'' else Undefined),
      columns_sql = (\<lambda>schema table. ''SELECT * FROM information_schema.columns '')\<rparr>"

text \<open>A client after connect, and a client on which connect was never called.\<close>

definition example_client :: client where
  "example_client = \<lparr>c_schema = Str ''public'', c_connection = Some ClientHandle, c_poolSize = 0\<rparr>"

definition new_client :: client where
  "new_client = \<lparr>c_schema = Null, c_connection = None, c_poolSize = 0\<rparr>"

text \<open>
  The field of the statement results of \<open>example_driver\<close>: the driver's field with the
  properties that raw adds, the table unknown. And such a result.
\<close>

definition example_field :: obj where
  "example_field =
     example_pg_field ++
     map_of [(''name'', Str ''n''), (''alias'', Str ''n''), (''schema'', Str ''public''),
             (''table'', Null), (''tableAlias'', Null), (''orgTable'', Null),
             (''type'', Str ''INT4'')]"

definition example_result :: result where
  "example_result =
     \<lparr>r_rows = Some [RowObj (map_of [(''n'', Num 1)])], r_report = Bool False,
      r_fields = [example_field], r_keys = Some [], r_duration = 3\<rparr>"

text \<open>The statement results in a value returned by raw.\<close>

definition results_of :: "raw_value \<Rightarrow> result list" where
  "results_of v = (case v of Single r \<Rightarrow> [r] | Many rs \<Rightarrow> rs)"

text \<open>The statements that raw runs: the non-empty pieces of the text.\<close>

definition statements :: "raw_args \<Rightarrow> string \<Rightarrow> string list" where
  "statements args sql =
     filter (\<lambda>query. query \<noteq> []) (if a_split args then split_on CHR '';'' sql else [sql])"

text \<open>A pair of \<open>table\<close> and \<open>schema\<close> for which the loop over \<open>paramsArr\<close> makes its lookups.\<close>

definition resolved :: "cell \<times> cell \<Rightarrow> bool" where
  "resolved p = (truthy (fst p) \<and> truthy (snd p))"

text \<open>The same backend, answering with the two rows of \<open>example_column_rows\<close>.\<close>

definition columns_driver :: "nat driver" where
  "columns_driver =
     example_driver\<lparr>pg_query :=
       (\<lambda>w h arrayMode text.
          (Inr \<lparr>res_rows = Some example_column_rows, res_fields = Some []\<rparr>, w + 3))\<rparr>"

definition example_descriptors :: "obj list" where
  "example_descriptors = projr (map_throwing (column_descriptor True) example_column_rows)"

text \<open>A backend that refuses every statement, as a driver does after its connection has ended.\<close>

definition refusing_driver :: "nat driver" where
  "refusing_driver =
     example_driver\<lparr>pg_query :=
       (\<lambda>w h arrayMode text. (Inl (DriverError ''Client was closed and is not queryable''), w))\<rparr>"

text \<open>
  For the enrichment under \<open>details\<close>: a catalog row that serves the three lookups, a
  \<^verbatim>\<open>this.raw\<close> that answers every statement with it, and two fields named \<open>id\<close>, the
  first of table \<open>public.t\<close>, the second of unknown origin.
\<close>

definition catalog_row :: row where
  "catalog_row =
     RowObj (map_of
       [(''column_name'', Str ''id''), (''data_type'', Str ''integer''), (''is_nullable'', Str ''NO''),
        (''numeric_precision'', Num 32), (''table_schema'', Str ''public''),
        (''table_name'', Str ''t''), (''constraint_name'', Str ''t_pkey''),
        (''constraint_type'', Str ''PRIMARY'')])"

definition catalog_raw :: "nat raw_fn" where
  "catalog_raw sql args c w = (Resolved (Single (make_result (Some [catalog_row]) [] [] 1)), c, w + 1)"

definition field_of_t :: obj where
  "field_of_t = map_of [(''name'', Str ''id''), (''schema'', Str ''public''), (''table'', Str ''t'')]"

definition field_of_unknown :: obj where
  "field_of_unknown = map_of [(''name'', Str ''id''), (''schema'', Str ''public''), (''table'', Null)]"

definition details_args :: raw_args where
  "details_args = \<lparr>a_nest = False, a_details = True, a_split = True\<rparr>"

section \<open>Properties of alterTable\<close>

subsection \<open>The \<^verbatim>\<open>ALTER COLUMN\<close> sub-clauses through the iterations\<close>

lemma acc_push_alter:
  "alter_column_clauses (push_alter s d) =
     alter_column_clauses d @ (if prefix ''ALTER COLUMN '' s then [s] else [])"
  by (simp add: alter_column_clauses_def push_alter_def)

lemma acc_push_other:
  "alter_column_clauses (push_index s d) = alter_column_clauses d"
  "alter_column_clauses (push_rename s d) = alter_column_clauses d"
  "alter_column_clauses (push_sequence s d) = alter_column_clauses d"
  by (simp_all add: alter_column_clauses_def push_index_def push_rename_def push_sequence_def)

lemma acc_options: "alter_column_clauses (options_step opts d) = alter_column_clauses d"
  by (simp add: options_step_def acc_push_alter Let_def split: option.splits)

lemma acc_add_field:
  "add_field dts a d = Inr d' \<Longrightarrow> alter_column_clauses d' = alter_column_clauses d"
  by (auto simp: add_field_def acc_push_alter add_column_clause_def split: sum.splits)

lemma acc_forEach_add_field:
  "forEach (add_field dts) as d = Inr d' \<Longrightarrow> alter_column_clauses d' = alter_column_clauses d"
proof (induction as arbitrary: d)
  case Nil
  then show ?case by simp
next
  case (Cons a as)
  then show ?case by (auto split: sum.splits dest: acc_add_field)
qed

lemma acc_add_index: "alter_column_clauses (add_index t i d) = alter_column_clauses d"
  by (simp add: add_index_def acc_push_alter acc_push_other Let_def)

lemma acc_fold_add_index:
  "alter_column_clauses (fold (add_index t) is d) = alter_column_clauses d"
  by (induction "is" arbitrary: d) (simp_all add: acc_add_index)

lemma acc_add_foreign: "alter_column_clauses (add_foreign f d) = alter_column_clauses d"
  by (simp add: add_foreign_def acc_push_alter foreign_clause_def)

lemma acc_fold_add_foreign:
  "alter_column_clauses (fold add_foreign fs d) = alter_column_clauses d"
  by (induction fs arbitrary: d) (simp_all add: acc_add_foreign)

lemma alter_clause_prefixes:
  "prefix ''ALTER COLUMN '' (alter_type_clause len c)"
  "prefix ''ALTER COLUMN '' (alter_null_clause c)"
  "prefix ''ALTER COLUMN '' (alter_default_clause c)"
  "prefix ''ALTER COLUMN '' (alter_nextval_clause t c)"
  by (simp_all add: alter_type_clause_def alter_null_clause_def alter_default_clause_def
      alter_nextval_clause_def)

lemma acc_change_field:
  "change_field dts s t c d = Inr d' \<Longrightarrow>
     alter_column_clauses d' = alter_column_clauses d @ change_clauses dts t c"
  by (auto simp: change_field_def change_clauses_def acc_push_alter acc_push_other
      alter_clause_prefixes Let_def split: sum.splits)

lemma acc_forEach_change_field:
  "forEach (change_field dts s t) cs d = Inr d' \<Longrightarrow>
     alter_column_clauses d' = alter_column_clauses d @ concat (map (change_clauses dts t) cs)"
proof (induction cs arbitrary: d)
  case Nil
  then show ?case by simp
next
  case (Cons c cs)
  then show ?case by (auto split: sum.splits dest: acc_change_field)
qed

lemma acc_change_index: "alter_column_clauses (change_index t i d) = alter_column_clauses d"
  by (simp add: change_index_def acc_add_index acc_push_alter acc_push_other Let_def)

lemma acc_fold_change_index:
  "alter_column_clauses (fold (change_index t) is d) = alter_column_clauses d"
  by (induction "is" arbitrary: d) (simp_all add: acc_change_index)

lemma acc_change_foreign: "alter_column_clauses (change_foreign f d) = alter_column_clauses d"
  by (simp add: change_foreign_def acc_push_alter foreign_clause_def)

lemma acc_fold_change_foreign:
  "alter_column_clauses (fold change_foreign fs d) = alter_column_clauses d"
  by (induction fs arbitrary: d) (simp_all add: acc_change_foreign)

lemma acc_drop_field: "alter_column_clauses (drop_field c d) = alter_column_clauses d"
  by (simp add: drop_field_def acc_push_alter)

lemma acc_fold_drop_field:
  "alter_column_clauses (fold drop_field cs d) = alter_column_clauses d"
  by (induction cs arbitrary: d) (simp_all add: acc_drop_field)

lemma acc_drop_index: "alter_column_clauses (drop_index i d) = alter_column_clauses d"
  by (simp add: drop_index_def acc_push_alter acc_push_other)

lemma acc_fold_drop_index:
  "alter_column_clauses (fold drop_index is d) = alter_column_clauses d"
  by (induction "is" arbitrary: d) (simp_all add: acc_drop_index)

lemma acc_drop_foreign: "alter_column_clauses (drop_foreign f d) = alter_column_clauses d"
  by (simp add: drop_foreign_def acc_push_alter)

lemma acc_fold_drop_foreign:
  "alter_column_clauses (fold drop_foreign fs d) = alter_column_clauses d"
  by (induction fs arbitrary: d) (simp_all add: acc_drop_foreign)

subsection \<open>The iterations over the additions\<close>

lemma column_length_known:
  "getTypeInfo dts (col_type a) \<noteq> None \<Longrightarrow>
     column_length dts a = Inr (projr (column_length dts a))"
  by (auto simp: column_length_def)

lemma forEach_add_field_known:
  "known_types dts as \<Longrightarrow>
     forEach (add_field dts) as d =
       Inr (d\<lparr>alterColumns := alterColumns d @ map (add_clause dts) as\<rparr>)"
proof (induction as arbitrary: d)
  case Nil
  then show ?case by simp
next
  case (Cons a as)
  from Cons.prems have k: "column_length dts a = Inr (projr (column_length dts a))"
    by (intro column_length_known) (simp add: known_types_def)
  have step: "add_field dts a d = Inr (push_alter (add_clause dts a) d)"
    unfolding add_field_def add_clause_def by (subst k) simp
  from Cons.prems have "known_types dts as"
    by (simp add: known_types_def)
  with Cons.IH step show ?case
    by (simp add: push_alter_def)
qed

lemma fold_add_index_plain:
  "list_all (\<lambda>i. ix_type i \<noteq> ''PRIMARY'' \<and> ix_type i \<noteq> ''UNIQUE'') is \<Longrightarrow>
     fold (add_index t) is d = d\<lparr>manageIndexes := manageIndexes d @ map (create_index_stmt t) is\<rparr>"
  by (induction "is" arbitrary: d) (simp_all add: add_index_def push_index_def Let_def)

lemma fold_add_foreign_eq:
  "fold add_foreign fs d = d\<lparr>alterColumns := alterColumns d @ map foreign_clause fs\<rparr>"
  by (induction fs arbitrary: d) (simp_all add: add_foreign_def push_alter_def)

lemma options_step_frame:
  "renameColumns (options_step opts d) = renameColumns d"
  "createSequences (options_step opts d) = createSequences d"
  "manageIndexes (options_step opts d) = manageIndexes d"
  by (simp_all add: options_step_def push_alter_def Let_def split: option.splits)

subsection \<open>Evaluation at the concrete inputs\<close>

lemmas example_defs =
  example_catalog_def example_column_def example_index_def no_options_def
  example_additions_def example_changes_def

lemmas alter_eval =
  alterTable_sql_def alterTable_ddl_def options_step_def add_field_def change_field_def
  column_length_def getTypeInfo_def toUpperCase_def toUpperChar_def toLowerCase_def
  toLowerChar_def add_index_def push_index_def push_alter_def push_sequence_def
  push_rename_def assemble_def js_or_def length_suffix_def is_serial_def localType_def
  sequenceName_def string_of_int_def string_of_nat.simps Let_def

lemma example_additions_sql:
  "alterTable_sql example_catalog (Str ''public'') example_additions =
     Inr (create_index_stmt ''t'' example_index @ ''; ''
          @ alter_table_head (Str ''public'') ''t''
          @ add_column_clause (Bool False) example_column @ ''; '')"
  by (simp add: example_defs alter_eval)

lemma example_changes_ddl:
  \<open>alterTable_ddl example_catalog (Str ''public'') example_changes =
     Inr \<lparr>alterColumns =
            [''ALTER COLUMN "id" TYPE integer USING "id"::integer'',
             ''ALTER COLUMN "id" SET NOT NULL'',
             ''ALTER COLUMN "id" DROP DEFAULT'',
             ''ALTER COLUMN "id" SET DEFAULT nextval('' @ sq @ ''t_id_seq'' @ sq @ '')'',
             ''ALTER COLUMN "v" TYPE varchar(20) USING "v"::varchar'',
             ''ALTER COLUMN "v" DROP NOT NULL'',
             ''ALTER COLUMN "v" DROP DEFAULT''],
          renameColumns = [],
          createSequences = [''CREATE SEQUENCE IF NOT EXISTS t_id_seq OWNED BY "t"."id"''],
          manageIndexes = []\<rparr>\<close>
  by (simp add: example_defs alter_eval alter_type_clause_def alter_null_clause_def
      alter_default_clause_def alter_nextval_clause_def create_sequence_stmt_def sq_def)

subsection \<open>Claim C1\<close>

text \<open>
  C1, as the spec states it, fails: for a diff with additions only the text would be
  the \<^verbatim>\<open>CREATE SEQUENCE\<close> statements, then the \<^verbatim>\<open>ALTER TABLE\<close> statement, then the
  \<^verbatim>\<open>CREATE INDEX\<close> statements. alterTable puts \<open>manageIndexes\<close> in front of the text it
  has built: adding column \<open>c\<close> and index \<open>i\<close> to table \<open>t\<close> gives the \<^verbatim>\<open>CREATE INDEX\<close>
  statement first and the \<^verbatim>\<open>ALTER TABLE\<close> statement after it, not the other way round.
\<close>

theorem additions_order_counterexample:
  "alterTable_sql example_catalog (Str ''public'') example_additions =
     Inr (create_index_stmt ''t'' example_index @ ''; ''
          @ alter_table_head (Str ''public'') ''t''
          @ add_column_clause (Bool False) example_column @ ''; '')
   \<and> alterTable_sql example_catalog (Str ''public'') example_additions \<noteq>
     Inr (alter_table_head (Str ''public'') ''t''
          @ add_column_clause (Bool False) example_column @ ''; ''
          @ create_index_stmt ''t'' example_index @ ''; '')"
  by (simp add: example_additions_sql)
     (simp add: create_index_stmt_def alter_table_head_def)

text \<open>
  C1, amended: for every diff with additions only, whose added columns have types of
  the catalog, the text handed to raw is, in order, the \<^verbatim>\<open>CREATE INDEX\<close> statements of the
  index additions (joined with \<^verbatim>\<open>;\<close>, when there are any) and then the one
  \<^verbatim>\<open>ALTER TABLE\<close> statement, whose clauses are the option clauses, one \<^verbatim>\<open>ADD COLUMN\<close> clause
  per column addition and one \<^verbatim>\<open>ADD CONSTRAINT ... FOREIGN KEY\<close> clause per foreign key
  addition. Nothing else is in the text: no \<^verbatim>\<open>CREATE SEQUENCE\<close> (an addition creates
  none), no \<^verbatim>\<open>RENAME\<close> and no \<^verbatim>\<open>DROP\<close> statement.
\<close>

theorem additions_only_sql:
  assumes oa: "only_additions p"
    and known: "known_types dataTypes (p_additions p)"
  shows "alterTable_sql dataTypes schema p =
     Inr ((if ic_additions (p_indexChanges p) = [] then ''''
           else join '';'' (map (create_index_stmt (p_table p)) (ic_additions (p_indexChanges p)))
                @ ''; '')
          @ alter_table_head schema (p_table p)
          @ join '', '' (alterColumns (options_step (p_options p) empty_ddl)
                         @ map (add_clause dataTypes) (p_additions p)
                         @ map foreign_clause (fc_additions (p_foreignChanges p)))
          @ ''; '')"
proof -
  let ?d1 = "options_step (p_options p) empty_ddl"
  let ?d = "?d1\<lparr>alterColumns := alterColumns ?d1 @ map (add_clause dataTypes) (p_additions p)
                      @ map foreign_clause (fc_additions (p_foreignChanges p)),
                  manageIndexes :=
                    map (create_index_stmt (p_table p)) (ic_additions (p_indexChanges p))\<rparr>"
  have plain: "list_all (\<lambda>i. ix_type i \<noteq> ''PRIMARY'' \<and> ix_type i \<noteq> ''UNIQUE'')
                 (ic_additions (p_indexChanges p))"
    using oa by (simp add: only_additions_def)
  have ddl: "alterTable_ddl dataTypes schema p = Inr ?d"
    using oa
    by (simp add: alterTable_ddl_def Let_def only_additions_def forEach_add_field_known [OF known]
        fold_add_index_plain [OF plain] fold_add_foreign_eq options_step_frame
        empty_ddl_def [symmetric])
       (simp add: empty_ddl_def options_step_frame)
  have ne: "p_additions p \<noteq> []" and nm: "\<not> truthy (opt_name (p_options p))"
    using oa by (simp_all add: only_additions_def)
  show ?thesis
    using ne nm
    by (simp add: alterTable_sql_def ddl assemble_def Let_def options_step_frame empty_ddl_def)
qed

theorem additions_only_sql_witness:
  "only_additions example_additions
   \<and> known_types example_catalog (p_additions example_additions)
   \<and> alterTable_sql example_catalog (Str ''public'') example_additions =
       Inr (create_index_stmt ''t'' example_index @ ''; ''
            @ alter_table_head (Str ''public'') ''t''
            @ add_clause example_catalog example_column @ ''; '')"
proof -
  have oa: "only_additions example_additions"
    by (simp add: only_additions_def example_defs)
  have known: "known_types example_catalog (p_additions example_additions)"
    by (simp add: known_types_def example_defs getTypeInfo_def toUpperCase_def toUpperChar_def)
  show ?thesis
    using oa known additions_only_sql [OF oa known, of "Str ''public''"]
    by (simp add: example_additions_def no_options_def options_step_def empty_ddl_def)
qed

subsection \<open>Claim C2\<close>

text \<open>
  C2, as the spec states it, fails for the serial types: exactly three
  \<^verbatim>\<open>ALTER COLUMN\<close> sub-clauses for every change. Changing column \<open>id\<close> to \<^verbatim>\<open>SERIAL\<close> (and
  column \<open>v\<close> to \<^verbatim>\<open>varchar(20)\<close>) gives four sub-clauses for \<open>id\<close>: type, nullability,
  default, and a second default that reads the sequence.
\<close>

theorem serial_change_counterexample:
  \<open>alter_column_clauses_of ''id'' (projr (alterTable_ddl example_catalog (Str ''public'') example_changes)) =
     [''ALTER COLUMN "id" TYPE integer USING "id"::integer'',
      ''ALTER COLUMN "id" SET NOT NULL'',
      ''ALTER COLUMN "id" DROP DEFAULT'',
      ''ALTER COLUMN "id" SET DEFAULT nextval('' @ sq @ ''t_id_seq'' @ sq @ '')'']
   \<and> length (alter_column_clauses_of ''id''
        (projr (alterTable_ddl example_catalog (Str ''public'') example_changes))) \<noteq> 3\<close>
  by (simp add: example_changes_ddl alter_column_clauses_of_def sq_def)

text \<open>
  C2, amended: whenever alterTable builds its clause list, the \<^verbatim>\<open>ALTER COLUMN\<close>
  sub-clauses in it are exactly those of the changes, change by change in the order of
  the list: for each change the type change with its \<^verbatim>\<open>USING\<close> cast, the nullability,
  the default, in this order, and for a change whose type is \<^verbatim>\<open>SERIAL\<close>, \<^verbatim>\<open>SMALLSERIAL\<close> or
  \<^verbatim>\<open>BIGSERIAL\<close> a fourth sub-clause after them, \<^verbatim>\<open>SET DEFAULT nextval(...)\<close> on the
  sequence of the column. So a change has three sub-clauses unless its type is serial,
  and four when it is.
\<close>

theorem changes_alter_column_clauses:
  assumes "alterTable_ddl dataTypes schema params = Inr d"
  shows "alter_column_clauses d =
           concat (map (\<lambda>c. [alter_type_clause (projr (column_length dataTypes c)) c,
                              alter_null_clause c,
                              alter_default_clause c]
                             @ (if is_serial (col_type c)
                                then [alter_nextval_clause (p_table params) c] else []))
                       (p_changes params))"
proof -
  from assms obtain d2 d5 where
    a: "forEach (add_field dataTypes) (p_additions params)
          (options_step (p_options params) empty_ddl) = Inr d2"
    and c: "forEach (change_field dataTypes schema (p_table params)) (p_changes params)
             (fold add_foreign (fc_additions (p_foreignChanges params))
               (fold (add_index (p_table params)) (ic_additions (p_indexChanges params)) d2))
            = Inr d5"
    and d: "d = fold drop_foreign (fc_deletions (p_foreignChanges params))
             (fold drop_index (ic_deletions (p_indexChanges params))
               (fold drop_field (p_deletions params)
                 (fold change_foreign (fc_changes (p_foreignChanges params))
                   (fold (change_index (p_table params)) (ic_changes (p_indexChanges params)) d5))))"
    by (auto simp: alterTable_ddl_def empty_ddl_def Let_def split: sum.splits)
  have "alter_column_clauses d2 = []"
    using acc_forEach_add_field [OF a]
    by (simp add: acc_options) (simp add: alter_column_clauses_def empty_ddl_def)
  then have "alter_column_clauses d5 =
      concat (map (change_clauses dataTypes (p_table params)) (p_changes params))"
    using acc_forEach_change_field [OF c] by (simp add: acc_fold_add_foreign acc_fold_add_index)
  then have "alter_column_clauses d =
      concat (map (change_clauses dataTypes (p_table params)) (p_changes params))"
    by (simp add: d acc_fold_drop_foreign acc_fold_drop_index acc_fold_drop_field
        acc_fold_change_foreign acc_fold_change_index)
  moreover have "change_clauses dataTypes (p_table params) =
      (\<lambda>c. [alter_type_clause (projr (column_length dataTypes c)) c,
            alter_null_clause c,
            alter_default_clause c]
           @ (if is_serial (col_type c) then [alter_nextval_clause (p_table params) c] else []))"
    by (rule ext) (simp add: change_clauses_def)
  ultimately show ?thesis
    by simp
qed

theorem changes_alter_column_clauses_witness:
  \<open>alter_column_clauses (projr (alterTable_ddl example_catalog (Str ''public'') example_changes)) =
     [''ALTER COLUMN "id" TYPE integer USING "id"::integer'',
      ''ALTER COLUMN "id" SET NOT NULL'',
      ''ALTER COLUMN "id" DROP DEFAULT'',
      ''ALTER COLUMN "id" SET DEFAULT nextval('' @ sq @ ''t_id_seq'' @ sq @ '')'',
      ''ALTER COLUMN "v" TYPE varchar(20) USING "v"::varchar'',
      ''ALTER COLUMN "v" DROP NOT NULL'',
      ''ALTER COLUMN "v" DROP DEFAULT'']\<close>
  using changes_alter_column_clauses [OF example_changes_ddl]
  by (simp add: example_changes_ddl)
     (simp add: example_defs alter_type_clause_def alter_null_clause_def alter_default_clause_def
       alter_nextval_clause_def column_length_def getTypeInfo_def toUpperCase_def toUpperChar_def
       toLowerCase_def toLowerChar_def js_or_def length_suffix_def is_serial_def localType_def
       sequenceName_def string_of_int_def string_of_nat.simps sq_def)

section \<open>Properties of the query builder\<close>

lemma selectArray_empty: "q_select q = [] \<Longrightarrow> selectArray reducer q = []"
  by (simp add: selectArray_def)

lemma limitRaw_empty_select: "q_select q = [] \<Longrightarrow> limitRaw reducer q = []"
  by (simp add: limitRaw_def selectArray_empty)

lemma limit_frame:
  "selectRaw reducer (q\<lparr>q_limit := l\<rparr>) = selectRaw reducer q"
  "updateRaw reducer (q\<lparr>q_limit := l\<rparr>) = updateRaw reducer q"
  "insertRaw (q\<lparr>q_limit := l\<rparr>) = insertRaw q"
  "fromRaw (q\<lparr>q_limit := l\<rparr>) = fromRaw q"
  "whereRaw reducer (q\<lparr>q_limit := l\<rparr>) = whereRaw reducer q"
  "groupByRaw reducer (q\<lparr>q_limit := l\<rparr>) = groupByRaw reducer q"
  "orderByRaw reducer (q\<lparr>q_limit := l\<rparr>) = orderByRaw reducer q"
  by (simp_all add: selectRaw_def selectArray_def updateRaw_def insertRaw_def fromRaw_def
      whereRaw_def groupByRaw_def orderByRaw_def split: list.splits)

lemma reducer_spec_keeps: "reducer_spec acc e = acc @ [to_str e]"
  by (simp add: reducer_spec_def)

lemmas getSQL_eval =
  getSQL_def selectRaw_def selectArray_def fromRaw_def whereRaw_def updateRaw_def
  insertRaw_def groupByRaw_def orderByRaw_def limitRaw_def Let_def

lemma normalize_example:
  "normalize_ws ''SELECT a, b FROM t WHERE id = 1 LIMIT 10 '' =
     ''SELECT a, b FROM t WHERE id = 1 LIMIT 10''"
  by (simp add: normalize_ws_def is_ws_def)

subsection \<open>Claim C4\<close>

text \<open>
  C4: the descriptor with select list \<open>a\<close>, \<open>b\<close>, target \<open>t\<close>, predicate \<open>id = 1\<close> and limit
  10 renders as \<^verbatim>\<open>SELECT a, b FROM t WHERE id = 1 LIMIT 10\<close> followed by one blank, hence
  as that text up to whitespace normalisation. getSQL reduces the clause lists with
  the reducer of the base class; the property holds for every reducer that keeps each
  entry, in order.
\<close>

theorem select_round_trip:
  assumes "\<And>acc e. reducer acc e = acc @ [to_str e]"
  shows "getSQL reducer example_query = ''SELECT a, b FROM t WHERE id = 1 LIMIT 10 ''
    \<and> normalize_ws (getSQL reducer example_query) =
        normalize_ws ''SELECT a, b FROM t WHERE id = 1 LIMIT 10''"
proof -
  have sql: "getSQL reducer example_query = ''SELECT a, b FROM t WHERE id = 1 LIMIT 10 ''"
    by (simp add: getSQL_eval assms example_query_def string_of_int_def string_of_nat.simps)
  show ?thesis
    by (simp only: sql normalize_example) (simp add: normalize_ws_def is_ws_def)
qed

theorem select_round_trip_witness:
  "getSQL reducer_spec example_query = ''SELECT a, b FROM t WHERE id = 1 LIMIT 10 ''
   \<and> normalize_ws (getSQL reducer_spec example_query) = ''SELECT a, b FROM t WHERE id = 1 LIMIT 10''"
  using select_round_trip [of reducer_spec, OF reducer_spec_keeps]
  by (simp add: normalize_ws_def is_ws_def)

subsection \<open>Claim C5\<close>

text \<open>
  C5: when the select list is empty, getSQL emits no \<^verbatim>\<open>LIMIT\<close> clause whatever limit is
  configured: the \<^verbatim>\<open>LIMIT\<close> fragment is empty and the text is the one of the same
  descriptor without a limit. The fragment is non-empty only when the select list is
  non-empty and a limit is set. This holds for every reducer.
\<close>

theorem limit_only_with_select:
  "(q_select q = [] \<longrightarrow>
      limitRaw reducer q = [] \<and> getSQL reducer q = getSQL reducer (q\<lparr>q_limit := []\<rparr>))
   \<and> (limitRaw reducer q \<noteq> [] \<longrightarrow> q_select q \<noteq> [] \<and> q_limit q \<noteq> [])"
proof (intro conjI impI)
  assume e: "q_select q = []"
  then show "limitRaw reducer q = []"
    by (rule limitRaw_empty_select)
  from e show "getSQL reducer q = getSQL reducer (q\<lparr>q_limit := []\<rparr>)"
    by (simp add: getSQL_def limit_frame limitRaw_def selectArray_empty)
next
  assume n: "limitRaw reducer q \<noteq> []"
  then show "q_select q \<noteq> []"
    using limitRaw_empty_select [of q reducer] by blast
  from n show "q_limit q \<noteq> []"
    by (auto simp: limitRaw_def split: if_splits)
qed

theorem limit_only_with_select_witness:
  "q_select example_update = [] \<and> q_limit example_update \<noteq> []
   \<and> getSQL reducer_spec example_update = ''UPDATE t SET a = 1 ''
   \<and> limitRaw reducer_spec example_query = ''LIMIT 10 ''
   \<and> q_select example_query \<noteq> [] \<and> q_limit example_query \<noteq> []"
proof -
  have a: "q_select example_update = []"
    by (simp add: example_update_def)
  have b: "limitRaw reducer_spec example_query \<noteq> []"
    by (simp add: limitRaw_def selectArray_def example_query_def reducer_spec_def)
  have "getSQL reducer_spec example_update = getSQL reducer_spec (example_update\<lparr>q_limit := []\<rparr>)"
    using a limit_only_with_select [of example_update reducer_spec] by blast
  moreover have "q_select example_query \<noteq> [] \<and> q_limit example_query \<noteq> []"
    using b limit_only_with_select [of example_query reducer_spec] by blast
  ultimately show ?thesis
    by (simp add: getSQL_eval example_update_def example_query_def reducer_spec_def
        string_of_int_def string_of_nat.simps)
qed

section \<open>Properties of column introspection\<close>

lemma map_throwing_Inr:
  "map_throwing f xs = Inr ys \<Longrightarrow>
     length ys = length xs \<and> (\<forall>i<length xs. f (xs ! i) = Inr (ys ! i))"
proof (induction xs arbitrary: ys)
  case Nil
  then show ?case by simp
next
  case (Cons x xs)
  then obtain y ys' where y: "f x = Inr y" and r: "map_throwing f xs = Inr ys'" and e: "ys = y # ys'"
    by (auto split: sum.splits)
  from Cons.IH [OF r] y e show ?case
    by (auto simp: nth_Cons split: nat.splits)
qed

lemma toUpperCase_arrayTypes: "(k, t) \<in> set arrayTypes \<Longrightarrow> toUpperCase t = t"
  by (auto simp: arrayTypes_def toUpperCase_def toUpperChar_def)

lemma getArrayType_Str:
  "getArrayType (Str u) =
     Inr (Str (case map_of arrayTypes u of Some t \<Rightarrow> t | None \<Rightarrow> replace_first CHR ''_'' [] u))"
proof (cases "map_of arrayTypes u")
  case None
  then have "u \<notin> set (map fst arrayTypes)"
    by (simp add: map_of_eq_None_iff)
  with None show ?thesis
    by (simp add: getArrayType_def)
next
  case (Some t)
  then have "u \<in> set (map fst arrayTypes)"
    by (metis map_of_eq_None_iff option.distinct(1) set_map)
  with Some show ?thesis
    by (simp add: getArrayType_def)
qed

lemma column_descriptor_array:
  assumes "row_get field ''data_type'' = Str ''ARRAY''"
    and "row_get field ''udt_name'' = Str u"
    and "column_descriptor True field = Inr d"
  shows "get d ''isArray'' = Bool True
    \<and> get d ''type'' =
        Str (case map_of arrayTypes u of
               Some t \<Rightarrow> t
             | None \<Rightarrow> toUpperCase (replace_first CHR ''_'' [] u))"
proof (cases "map_of arrayTypes u")
  case None
  with assms show ?thesis
    by (auto simp: column_descriptor_def getArrayType_Str get_def Let_def split: cell.splits)
next
  case (Some t)
  then have "toUpperCase t = t"
    by (auto dest: map_of_SomeD toUpperCase_arrayTypes)
  with Some assms show ?thesis
    by (auto simp: column_descriptor_def getArrayType_Str get_def Let_def split: cell.splits)
qed

subsection \<open>Claim C6\<close>

text \<open>
  C6: when getTableColumns, with array remapping enabled, returns the descriptors of
  the rows of its query, the descriptor of every row whose \<^verbatim>\<open>data_type\<close> is \<^verbatim>\<open>ARRAY\<close> has
  \<open>isArray\<close> true, and its type comes from \<^verbatim>\<open>udt_name\<close>: the entry of the table of array
  types when the name is in the table, and otherwise the name with its leading \<open>_\<close>
  marker stripped, in upper case. The marker is stripped by removing the first \<open>_\<close> of
  the name, which is the leading one in every name that begins with the marker.
\<close>

theorem array_columns_remapped:
  assumes "self (columns_sql dv schema table) default_args c w = (Resolved (Single r), c1, w1)"
    and "r_rows r = Some rows"
    and "getTableColumns self dv schema table True c w = (Resolved ds, c2, w2)"
    and "i < length rows"
    and "row_get (rows ! i) ''data_type'' = Str ''ARRAY''"
    and "row_get (rows ! i) ''udt_name'' = Str udt"
  shows "length ds = length rows
    \<and> get (ds ! i) ''isArray'' = Bool True
    \<and> (\<forall>t. map_of arrayTypes udt = Some t \<longrightarrow> get (ds ! i) ''type'' = Str t)
    \<and> (map_of arrayTypes udt = None \<longrightarrow>
          get (ds ! i) ''type'' = Str (toUpperCase (replace_first CHR ''_'' [] udt)))
    \<and> (\<forall>rest. map_of arrayTypes udt = None \<and> udt = CHR ''_'' # rest \<longrightarrow>
          get (ds ! i) ''type'' = Str (toUpperCase rest))"
proof -
  from assms(1-3) have m: "map_throwing (column_descriptor True) rows = Inr ds"
    by (auto simp: getTableColumns_def await_def rows_of_def settle_def split: sum.splits)
  from map_throwing_Inr [OF m] assms(4)
  have len: "length ds = length rows" and d: "column_descriptor True (rows ! i) = Inr (ds ! i)"
    by simp_all
  from column_descriptor_array [OF assms(5,6) d] len show ?thesis
    by auto
qed

lemma raw_columns_driver:
  "raw columns_driver (columns_sql columns_driver (Str ''public'') (Str ''t'')) default_args
     example_client 0 =
   (Resolved (Single (make_result (Some example_column_rows) [] [] 3)), example_client, 3)"
  by (simp add: raw_def raw_body_def raw_inner_def default_args_def columns_driver_def
      example_driver_def example_client_def run_query_def on_result_def nest_part_def
      details_part_def raw_return_def Let_def)

lemma example_descriptors_built:
  "map_throwing (column_descriptor True) example_column_rows = Inr example_descriptors"
proof -
  have "\<exists>ds. map_throwing (column_descriptor True) example_column_rows = Inr ds"
    by (simp add: example_column_rows_def column_descriptor_def get_def getArrayType_def
        arrayTypes_def Let_def)
  then show ?thesis
    by (auto simp: example_descriptors_def)
qed

theorem array_columns_remapped_witness:
  "getTableColumns (raw columns_driver) columns_driver (Str ''public'') (Str ''t'') True
     example_client 0 = (Resolved example_descriptors, example_client, 3)
   \<and> length example_descriptors = 2
   \<and> get (example_descriptors ! 0) ''isArray'' = Bool True
   \<and> get (example_descriptors ! 0) ''type'' = Str ''INTEGER''
   \<and> get (example_descriptors ! 1) ''isArray'' = Bool True
   \<and> get (example_descriptors ! 1) ''type'' = Str ''CUSTOM''"
proof -
  have rows: "r_rows (make_result (Some example_column_rows) [] [] 3) = Some example_column_rows"
    by (simp add: make_result_def example_column_rows_def is_array_row_def)
  have run: "getTableColumns (raw columns_driver) columns_driver (Str ''public'') (Str ''t'') True
     example_client 0 = (Resolved example_descriptors, example_client, 3)"
    by (simp add: getTableColumns_def raw_columns_driver await_def rows_of_def rows
        example_descriptors_built settle_def)
  have len: "length example_column_rows = 2"
    by (simp add: example_column_rows_def)
  have r0: "row_get (example_column_rows ! 0) ''data_type'' = Str ''ARRAY''"
    "row_get (example_column_rows ! 0) ''udt_name'' = Str ''_int4''"
    and r1: "row_get (example_column_rows ! 1) ''data_type'' = Str ''ARRAY''"
    "row_get (example_column_rows ! 1) ''udt_name'' = Str ''_custom''"
    by (simp_all add: example_column_rows_def get_def)
  have t0: "map_of arrayTypes ''_int4'' = Some ''INTEGER''"
    and t1: "map_of arrayTypes ''_custom'' = None"
    by (simp_all add: arrayTypes_def)
  have u: "toUpperCase ''custom'' = ''CUSTOM''"
    by (simp add: toUpperCase_def toUpperChar_def)
  from array_columns_remapped [OF raw_columns_driver rows run _ r0] len t0
  have a: "length example_descriptors = 2 \<and> get (example_descriptors ! 0) ''isArray'' = Bool True
      \<and> get (example_descriptors ! 0) ''type'' = Str ''INTEGER''"
    by simp
  from array_columns_remapped [OF raw_columns_driver rows run _ r1] len t1 u
  have b: "get (example_descriptors ! 1) ''isArray'' = Bool True
      \<and> get (example_descriptors ! 1) ''type'' = Str ''CUSTOM''"
    by simp
  from run a b show ?thesis
    by simp
qed

section \<open>Properties of raw\<close>

subsection \<open>The loop over the statements\<close>

lemma raw_loop_filter:
  "raw_loop self dv args queries resultsArr c w =
     raw_loop self dv args (filter (\<lambda>query. query \<noteq> []) queries) resultsArr c w"
  by (induction queries arbitrary: resultsArr c w)
     (auto split: prod.splits outcome.splits)

lemma raw_body_statements:
  "\<not> a_nest args \<Longrightarrow>
     raw_body self dv sql args c w = raw_loop self dv args (statements args sql) [] c w"
  by (simp add: raw_body_def statements_def raw_loop_filter [symmetric] Let_def)

subsection \<open>Without nest and details, raw makes no call to its helpers\<close>

lemma on_result_plain:
  "\<not> a_nest args \<Longrightarrow> \<not> a_details args \<Longrightarrow>
     on_result self dv args query t0 t1 res c w =
       (case (case res_fields res of
                None \<Rightarrow> Inr []
              | Some flds \<Rightarrow> map_throwing (remap_field dv args (c_schema c) (first_ast dv query) None) flds) of
          Inl e \<Rightarrow> (Pending, c, w)
        | Inr remappedFields \<Rightarrow>
            (Resolved (make_result (res_rows res) remappedFields [] (t1 - t0)), c, w))"
  by (simp add: on_result_def nest_part_def details_part_def Let_def split: sum.splits)

lemma run_query_plain:
  "\<not> a_nest args \<Longrightarrow> \<not> a_details args \<Longrightarrow>
     run_query self dv args query c w = run_query self' dv args query c w"
  by (simp add: run_query_def on_result_plain split: option.splits prod.splits sum.splits)

lemma raw_loop_plain:
  "\<not> a_nest args \<Longrightarrow> \<not> a_details args \<Longrightarrow>
     raw_loop self dv args queries resultsArr c w = raw_loop self' dv args queries resultsArr c w"
proof (induction queries arbitrary: resultsArr c w)
  case Nil
  then show ?case by simp
next
  case (Cons query queries)
  from Cons.prems have "run_query self dv args query c w = run_query self' dv args query c w"
    by (rule run_query_plain)
  with Cons show ?case
    by (simp split: prod.splits outcome.splits)
qed

lemma raw_body_plain:
  "\<not> a_nest args \<Longrightarrow> \<not> a_details args \<Longrightarrow>
     raw_body self dv sql args c w = raw_body self' dv sql args c w"
  by (simp add: raw_body_def Let_def raw_loop_plain [of args self dv _ _ _ _ self'])

lemma raw_default: "raw dv sql default_args c w = raw_inner dv sql default_args c w"
  unfolding raw_def raw_inner_def by (rule raw_body_plain) (simp_all add: default_args_def)

lemma run_query_plain_client:
  "\<not> a_nest args \<Longrightarrow> \<not> a_details args \<Longrightarrow>
     run_query self dv args query c w = (p, c', w') \<Longrightarrow> c' = c"
  by (auto simp: run_query_def on_result_plain Let_def split: option.splits prod.splits sum.splits)

lemma raw_loop_plain_client:
  "\<not> a_nest args \<Longrightarrow> \<not> a_details args \<Longrightarrow>
     raw_loop self dv args queries resultsArr c w = (p, c', w') \<Longrightarrow> c' = c"
proof (induction queries arbitrary: resultsArr c w)
  case Nil
  then show ?case by simp
next
  case (Cons query queries)
  show ?case
  proof (cases "query = []")
    case True
    with Cons show ?thesis by simp
  next
    case False
    obtain q c1 w1 where r: "run_query self dv args query c w = (q, c1, w1)"
      by (cases "run_query self dv args query c w") auto
    from run_query_plain_client [OF Cons.prems(1,2) r] have c1: "c1 = c" .
    from Cons.prems(3) False r c1 show ?thesis
      by (cases q) (auto dest: Cons.IH [OF Cons.prems(1,2)])
  qed
qed

lemma raw_body_plain_client:
  "\<not> a_nest args \<Longrightarrow> \<not> a_details args \<Longrightarrow>
     raw_body self dv sql args c w = (p, c', w') \<Longrightarrow> c' = c"
  by (auto simp: raw_body_def Let_def dest: raw_loop_plain_client)

lemma raw_default_client: "raw dv sql default_args c w = (p, c', w') \<Longrightarrow> c' = c"
  unfolding raw_def by (rule raw_body_plain_client) (simp_all add: default_args_def)

subsection \<open>The result of one statement\<close>

lemma run_query_keys:
  "run_query self dv args query c w = (Resolved r, c', w') \<Longrightarrow>
     r_keys r \<noteq> None \<and> (\<not> a_details args \<longrightarrow> r_keys r = Some [])"
  by (auto simp: run_query_def on_result_def details_part_def make_result_def Let_def
      split: option.splits prod.splits sum.splits if_splits)

lemma run_query_plain_duration:
  "\<not> a_nest args \<Longrightarrow> \<not> a_details args \<Longrightarrow>
     run_query self dv args query c w = (Resolved r, c', w') \<Longrightarrow>
     r_duration r = now dv w' - now dv w"
  by (auto simp: run_query_def on_result_plain make_result_def Let_def
      split: option.splits prod.splits sum.splits)

subsection \<open>Evaluation at the concrete backend\<close>

lemma example_run_query:
  "run_query self example_driver default_args (x # xs) example_client w =
     (Resolved (example_result\<lparr>r_duration := 3\<rparr>), example_client, w + 3)"
  by (simp add: run_query_def on_result_def nest_part_def details_part_def default_args_def
      example_driver_def example_client_def example_pg_result_def example_result_def
      example_field_def first_ast_def from0_def remap_field_def make_result_def
      is_array_row_def js_or_def get_def example_pg_field_def Let_def)

lemma example_result_duration: "example_result\<lparr>r_duration := 3\<rparr> = example_result"
  by (simp add: example_result_def)

lemma example_statements:
  "statements default_args ''SELECT 1; SELECT 2'' = [''SELECT 1'', '' SELECT 2'']"
  "statements default_args ''SELECT 1'' = [''SELECT 1'']"
  "statements default_args [] = []"
  by (simp_all add: statements_def default_args_def)

lemma results_of_raw_return: "results_of (raw_return rs) = rs"
  by (simp add: results_of_def raw_return_def split: list.splits)

subsection \<open>Claim C3\<close>

text \<open>
  C3: raw with the default arguments (\<open>split\<close> true, neither \<open>nest\<close> nor \<open>details\<close>). When
  the text has exactly two non-empty statements and both run, raw returns the sequence
  of their two results, in order, and each result has its own duration: the time
  from the start of its turn to the answer of the driver. When the text has exactly
  one non-empty statement and it runs, raw returns its result itself, not a sequence.
\<close>

theorem split_results:
  "(statements default_args sql = [q1, q2]
      \<and> run_query (raw_inner dv) dv default_args q1 c w = (Resolved r1, c1, w1)
      \<and> run_query (raw_inner dv) dv default_args q2 c1 w1 = (Resolved r2, c2, w2)
    \<longrightarrow> raw dv sql default_args c w = (Resolved (Many [r1, r2]), c2, w2)
        \<and> r_duration r1 = now dv w1 - now dv w
        \<and> r_duration r2 = now dv w2 - now dv w1)
   \<and> (statements default_args sql = [q1]
      \<and> run_query (raw_inner dv) dv default_args q1 c w = (Resolved r1, c1, w1)
    \<longrightarrow> raw dv sql default_args c w = (Resolved (Single r1), c1, w1))"
proof -
  have plain: "\<not> a_nest default_args" "\<not> a_details default_args"
    by (simp_all add: default_args_def)
  have body: "raw dv sql default_args c w =
      raw_loop (raw_inner dv) dv default_args (statements default_args sql) [] c w"
    unfolding raw_def by (rule raw_body_statements) (rule plain)
  have ne: "run_query (raw_inner dv) dv default_args q c0 w0 = (Resolved r, c', w') \<Longrightarrow> q \<noteq> []"
    if "q \<in> set (statements default_args sql)" for q c0 w0 r c' w'
    using that by (simp add: statements_def)
  show ?thesis
  proof (intro conjI impI)
    assume a: "statements default_args sql = [q1, q2]
      \<and> run_query (raw_inner dv) dv default_args q1 c w = (Resolved r1, c1, w1)
      \<and> run_query (raw_inner dv) dv default_args q2 c1 w1 = (Resolved r2, c2, w2)"
    then have "q1 \<noteq> []" "q2 \<noteq> []"
      using ne [of q1] ne [of q2] by auto
    with a show "raw dv sql default_args c w = (Resolved (Many [r1, r2]), c2, w2)"
      by (simp add: body raw_return_def)
    from a show "r_duration r1 = now dv w1 - now dv w"
      by (auto dest: run_query_plain_duration [OF plain])
    from a show "r_duration r2 = now dv w2 - now dv w1"
      by (auto dest: run_query_plain_duration [OF plain])
  next
    assume a: "statements default_args sql = [q1]
      \<and> run_query (raw_inner dv) dv default_args q1 c w = (Resolved r1, c1, w1)"
    then have "q1 \<noteq> []"
      using ne [of q1] by auto
    with a show "raw dv sql default_args c w = (Resolved (Single r1), c1, w1)"
      by (simp add: body raw_return_def)
  qed
qed

theorem split_results_witness:
  "raw example_driver ''SELECT 1; SELECT 2'' default_args example_client 0 =
     (Resolved (Many [example_result, example_result]), example_client, 6)
   \<and> r_duration example_result = 3
   \<and> raw example_driver ''SELECT 1'' default_args example_client 0 =
     (Resolved (Single example_result), example_client, 3)"
proof -
  have s2: "statements default_args ''SELECT 1; SELECT 2'' = [''SELECT 1'', '' SELECT 2'']
      \<and> run_query (raw_inner example_driver) example_driver default_args ''SELECT 1''
          example_client 0 = (Resolved example_result, example_client, 3)
      \<and> run_query (raw_inner example_driver) example_driver default_args '' SELECT 2''
          example_client 3 = (Resolved example_result, example_client, 6)"
    by (simp add: example_statements example_run_query example_result_duration)
  have s1: "statements default_args ''SELECT 1'' = [''SELECT 1'']
      \<and> run_query (raw_inner example_driver) example_driver default_args ''SELECT 1''
          example_client 0 = (Resolved example_result, example_client, 3)"
    by (simp add: example_statements example_run_query example_result_duration)
  from split_results [of "''SELECT 1; SELECT 2''" "''SELECT 1''" "'' SELECT 2''" example_driver
      example_client 0 example_result example_client 3 example_result example_client 6] s2
  have two: "raw example_driver ''SELECT 1; SELECT 2'' default_args example_client 0 =
      (Resolved (Many [example_result, example_result]), example_client, 6)
      \<and> r_duration example_result = now example_driver 3 - now example_driver 0"
    by blast
  from split_results [of "''SELECT 1''" "''SELECT 1''" q2 example_driver
      example_client 0 example_result example_client 3] s1
  have one: "raw example_driver ''SELECT 1'' default_args example_client 0 =
      (Resolved (Single example_result), example_client, 3)"
    by blast
  from two one show ?thesis
    by (simp add: example_driver_def)
qed

subsection \<open>Claim C7\<close>

lemma raw_loop_results:
  "raw_loop self dv args queries resultsArr c w = (Resolved v, c', w') \<Longrightarrow>
     list_all P resultsArr \<Longrightarrow>
     (\<And>query c0 w0 r c1 w1.
        run_query self dv args query c0 w0 = (Resolved r, c1, w1) \<Longrightarrow> P r) \<Longrightarrow>
     list_all P (results_of v)"
proof (induction queries arbitrary: resultsArr c w)
  case Nil
  then show ?case
    by (auto simp: results_of_raw_return)
next
  case (Cons query queries)
  show ?case
  proof (cases "query = []")
    case True
    with Cons.prems show ?thesis
      by (auto intro: Cons.IH)
  next
    case False
    obtain q c1 w1 where r: "run_query self dv args query c w = (q, c1, w1)"
      by (cases "run_query self dv args query c w") auto
    show ?thesis
    proof (cases q)
      case (Resolved r1)
      with r Cons.prems(3) have "P r1"
        by blast
      with Cons.prems(2) have pall: "list_all P (resultsArr @ [r1])"
        by simp
      from Cons.prems(1) False r Resolved
      have loop: "raw_loop self dv args queries (resultsArr @ [r1]) c1 w1 = (Resolved v, c', w')"
        by simp
      show ?thesis
        by (rule Cons.IH [OF loop pall Cons.prems(3)])
    next
      case (Rejected e)
      with Cons.prems(1) False r show ?thesis by simp
    next
      case Pending
      with Cons.prems(1) False r show ?thesis by simp
    qed
  qed
qed

text \<open>
  C7, as the spec states it, fails: a result would carry a \<open>keys\<close> field only when
  \<open>details\<close> was requested. With \<open>details\<close> false, the result of \<^verbatim>\<open>SELECT 1\<close> has the field,
  and it holds the empty array.
\<close>

theorem keys_without_details_counterexample:
  "raw example_driver ''SELECT 1'' default_args example_client 0 =
     (Resolved (Single example_result), example_client, 3)
   \<and> \<not> a_details default_args
   \<and> r_keys example_result = Some []
   \<and> r_keys example_result \<noteq> None"
proof -
  have "raw example_driver ''SELECT 1'' default_args example_client 0 =
      raw_loop (raw_inner example_driver) example_driver default_args [''SELECT 1''] []
        example_client 0"
    unfolding raw_def
    by (subst raw_body_statements) (simp_all add: example_statements, simp add: default_args_def)
  then show ?thesis
    by (simp add: example_run_query example_result_duration raw_return_def)
       (simp add: default_args_def example_result_def)
qed

text \<open>
  C7, amended: every statement result that raw returns carries the \<open>keys\<close> field,
  whatever the arguments; when \<open>details\<close> is false the field holds the empty array (the
  foreign-key rows are collected only under \<open>details\<close>).
\<close>

theorem keys_always_present:
  assumes "raw dv sql args c w = (Resolved v, c', w')"
  shows "list_all (\<lambda>r. r_keys r \<noteq> None \<and> (\<not> a_details args \<longrightarrow> r_keys r = Some []))
           (results_of v)"
proof -
  obtain c1 w1 where
    "raw_loop (raw_inner dv) dv args (if a_split args then split_on CHR '';'' sql else [sql]) []
       c1 w1 = (Resolved v, c', w')"
    using assms by (auto simp: raw_def raw_body_def Let_def split: prod.splits)
  then show ?thesis
    by (rule raw_loop_results) (simp_all add: run_query_keys)
qed

theorem keys_always_present_witness:
  "raw example_driver ''SELECT 1; SELECT 2'' default_args example_client 0 =
     (Resolved (Many [example_result, example_result]), example_client, 6)
   \<and> list_all (\<lambda>r. r_keys r \<noteq> None \<and> (\<not> a_details default_args \<longrightarrow> r_keys r = Some []))
        [example_result, example_result]"
proof -
  have "raw example_driver ''SELECT 1; SELECT 2'' default_args example_client 0 =
      raw_loop (raw_inner example_driver) example_driver default_args
        [''SELECT 1'', '' SELECT 2''] [] example_client 0"
    unfolding raw_def
    by (subst raw_body_statements) (simp_all add: example_statements, simp add: default_args_def)
  then have run: "raw example_driver ''SELECT 1; SELECT 2'' default_args example_client 0 =
      (Resolved (Many [example_result, example_result]), example_client, 6)"
    by (simp add: example_run_query example_result_duration raw_return_def)
  from keys_always_present [OF run] run show ?thesis
    by (simp add: results_of_def)
qed

subsection \<open>Claim C9\<close>

lemma raw_loop_no_connection:
  "c_connection c = None \<Longrightarrow>
     raw_loop self dv args queries resultsArr c w =
       ((if filter (\<lambda>query. query \<noteq> []) queries = [] then Resolved (raw_return resultsArr)
         else Rejected TypeError), c, w)"
  by (induction queries arbitrary: resultsArr) (simp_all add: run_query_def)

lemma use_unawaited_no_connection:
  "c_connection c = None \<Longrightarrow> use_unawaited (raw_inner dv) schema c w = (c\<lparr>c_schema := schema\<rparr>, w)"
  by (simp add: use_unawaited_def use_def raw_inner_def raw_body_def default_args_def
      raw_loop_no_connection Let_def)

lemma raw_no_connection:
  assumes n: "c_connection c = None"
  shows "raw dv sql args c w =
      ((if statements args sql = [] then Resolved (Many []) else Rejected TypeError), c, w)"
proof -
  from n have "use_unawaited (raw_inner dv) (c_schema c) c w = (c, w)"
    by (simp add: use_unawaited_no_connection)
  with n show ?thesis
    by (simp add: raw_def raw_body_def raw_loop_no_connection statements_def raw_return_def
        Let_def)
qed

text \<open>
  C9, as the spec states it, fails: every operation on a client that is not
  connected would fail, with a NotConnected error. On a client on which connect was
  never called, raw with an empty text returns the empty sequence and does not fail;
  with a statement it fails with the TypeError of reading \<open>query\<close> of the undefined
  connection. The code has no NotConnected error.
\<close>

theorem not_connected_counterexample:
  "c_connection new_client = None
   \<and> raw example_driver [] default_args new_client 0 = (Resolved (Many []), new_client, 0)
   \<and> raw example_driver ''SELECT 1'' default_args new_client 0 =
       (Rejected TypeError, new_client, 0)"
proof -
  have n: "c_connection new_client = None"
    by (simp add: new_client_def)
  show ?thesis
    by (simp add: n raw_no_connection [OF n] example_statements)
qed

text \<open>
  C9, amended. On a client whose connection was never established, raw makes no
  attempt to connect and reaches neither the driver nor the client state: with at
  least one non-empty statement it is rejected with a TypeError, and with none it
  returns the empty sequence. destroy ends the connection and leaves the handle in
  the client; from then on, as on a connected client, a statement that the driver
  refuses is rejected with the driver's own error.
\<close>

theorem not_connected_raw:
  "(c_connection c = None \<longrightarrow>
      raw dv sql args c w =
        ((if statements args sql = [] then Resolved (Many []) else Rejected TypeError), c, w))
   \<and> (c_connection c = Some h \<longrightarrow> destroy dv c w = (Inr (), c, pg_end dv w h))
   \<and> (c_connection c = Some h \<and> pg_query dv w h (a_nest args) (x # xs) = (Inl err, w1) \<longrightarrow>
        run_query self dv args (x # xs) c w = (Rejected err, c, w1))"
proof (intro conjI impI)
  assume "c_connection c = None"
  then show "raw dv sql args c w =
      ((if statements args sql = [] then Resolved (Many []) else Rejected TypeError), c, w)"
    by (rule raw_no_connection)
next
  assume "c_connection c = Some h"
  then show "destroy dv c w = (Inr (), c, pg_end dv w h)"
    by (simp add: destroy_def)
next
  assume "c_connection c = Some h \<and> pg_query dv w h (a_nest args) (x # xs) = (Inl err, w1)"
  then show "run_query self dv args (x # xs) c w = (Rejected err, c, w1)"
    by (simp add: run_query_def)
qed

theorem not_connected_raw_witness:
  "c_connection new_client = None
   \<and> raw example_driver ''SELECT 1'' default_args new_client 0 = (Rejected TypeError, new_client, 0)
   \<and> c_connection example_client = Some ClientHandle
   \<and> destroy refusing_driver example_client 0 = (Inr (), example_client, 0)
   \<and> run_query (raw_inner refusing_driver) refusing_driver default_args ''SELECT 1''
        example_client 0 =
       (Rejected (DriverError ''Client was closed and is not queryable''), example_client, 0)"
proof -
  have n: "c_connection new_client = None"
    by (simp add: new_client_def)
  have h: "c_connection example_client = Some ClientHandle"
    by (simp add: example_client_def)
  have q: "pg_query refusing_driver 0 ClientHandle (a_nest default_args) ''SELECT 1'' =
      (Inl (DriverError ''Client was closed and is not queryable''), 0)"
    by (simp add: refusing_driver_def)
  have e: "pg_end refusing_driver 0 ClientHandle = 0"
    by (simp add: refusing_driver_def example_driver_def)
  from not_connected_raw [where c = new_client and dv = example_driver and sql = "''SELECT 1''"
      and args = default_args and w = 0] n
  have a: "raw example_driver ''SELECT 1'' default_args new_client 0 =
      (Rejected TypeError, new_client, 0)"
    by (simp add: example_statements)
  from not_connected_raw [where c = example_client and dv = refusing_driver and w = 0
      and h = ClientHandle and args = default_args and x = "CHR ''S''" and xs = "''ELECT 1''"
      and err = "DriverError ''Client was closed and is not queryable''" and ?w1.0 = 0
      and self = "raw_inner refusing_driver"] h q e
  have b: "destroy refusing_driver example_client 0 = (Inr (), example_client, 0)
      \<and> run_query (raw_inner refusing_driver) refusing_driver default_args ''SELECT 1''
           example_client 0 =
          (Rejected (DriverError ''Client was closed and is not queryable''), example_client, 0)"
    by simp
  from n h a b show ?thesis
    by simp
qed

subsection \<open>Claim C10\<close>

text \<open>
  C10: getTableIndexes with a schema other than \<open>public\<close> leaves \<open>_schema\<close> of the client
  set to that schema, whatever the outcome of its statements, and does not restore
  it; with the schema \<open>public\<close> it leaves \<open>_schema\<close> as it was. The connection of the
  client is the same in both cases.
\<close>

theorem getTableIndexes_sets_schema:
  assumes "getTableIndexes (raw dv) schema table c w = (p, c', w')"
  shows "c_schema c' = (if schema = Str ''public'' then c_schema c else schema)
    \<and> c_connection c' = c_connection c"
proof -
  obtain c1 w1 where
    u: "(if schema \<noteq> Str ''public'' then use_unawaited (raw dv) schema c w else (c, w)) = (c1, w1)"
    by (cases "if schema \<noteq> Str ''public'' then use_unawaited (raw dv) schema c w else (c, w)")
  have c1: "c1 = (if schema = Str ''public'' then c else c\<lparr>c_schema := schema\<rparr>)"
  proof (cases "schema = Str ''public''")
    case True
    with u show ?thesis by simp
  next
    case False
    obtain q where "raw dv (''SET search_path TO '' @ to_str schema) default_args
        (c\<lparr>c_schema := schema\<rparr>) w = (q, c1, w1)"
      using u False by (auto simp: use_unawaited_def use_def split: prod.splits)
    from raw_default_client [OF this] False show ?thesis by simp
  qed
  obtain q c2 w2 where r: "raw dv (tableIndexes_sql table) default_args c1 w1 = (q, c2, w2)"
    by (cases "raw dv (tableIndexes_sql table) default_args c1 w1") auto
  from raw_default_client [OF r] have c2: "c2 = c1" .
  from assms u r have "c' = c2"
    by (cases q) (auto simp: getTableIndexes_def await_def split: sum.splits)
  with c1 c2 show ?thesis
    by simp
qed

theorem getTableIndexes_sets_schema_witness:
  "c_schema example_client = Str ''public''
   \<and> c_schema (fst (snd (getTableIndexes (raw example_driver) (Str ''app'') (Str ''t'')
        example_client 0))) = Str ''app''
   \<and> c_schema (fst (snd (getTableIndexes (raw example_driver) (Str ''public'') (Str ''t'')
        (example_client\<lparr>c_schema := Str ''app''\<rparr>) 0))) = Str ''app''"
proof -
  have split3: "x = (fst x, fst (snd x), snd (snd x))" for x :: "obj list outcome \<times> client \<times> nat"
    by simp
  from getTableIndexes_sets_schema [OF split3, of example_driver "Str ''app''" "Str ''t''" example_client 0]
    getTableIndexes_sets_schema [OF split3, of example_driver "Str ''public''" "Str ''t''"
      "example_client\<lparr>c_schema := Str ''app''\<rparr>" 0]
  show ?thesis
    by (simp add: example_client_def)
qed

subsection \<open>Claim C8\<close>

lemma enrich_skips:
  "enrich self dv ps flds keysArr rej c w =
     enrich self dv (filter resolved ps) flds keysArr rej c w"
proof (induction ps arbitrary: flds keysArr rej c w)
  case Nil
  then show ?case by simp
next
  case (Cons p ps)
  obtain ptable pschema where p: "p = (ptable, pschema)"
    by (cases p)
  show ?case
  proof (cases "resolved p")
    case False
    with p have "\<not> truthy ptable \<or> \<not> truthy pschema"
      by (simp add: resolved_def)
    with False p Cons.IH show ?thesis
      by simp
  next
    case True
    with p have "\<not> (\<not> truthy ptable \<or> \<not> truthy pschema)"
      by (simp add: resolved_def)
    with True p Cons.IH show ?thesis
      by (simp split: prod.splits option.splits)
  qed
qed

lemma merge_details_other:
  "\<not> resolved (get f ''table'', get f ''schema'') \<Longrightarrow> resolved (ptable, pschema) \<Longrightarrow>
     merge_details columns indexes ptable pschema f = f"
  by (auto simp: merge_details_def resolved_def Let_def)

lemma column_details_keeps:
  assumes "column_details self dv ptable pschema flds rej c w = ((Some flds1, rej1), c1, w1)"
    and "resolved (ptable, pschema)"
  shows "length flds1 = length flds
    \<and> (\<forall>i<length flds. \<not> resolved (get (flds ! i) ''table'', get (flds ! i) ''schema'')
          \<longrightarrow> flds1 ! i = flds ! i)"
  using assms
  by (auto simp: column_details_def merge_details_other split: prod.splits outcome.splits)

lemma enrich_keeps:
  "enrich self dv ps flds keysArr rej c w = ((Some (flds', keys'), rej'), c', w') \<Longrightarrow>
     length flds' = length flds
     \<and> (\<forall>i<length flds. \<not> resolved (get (flds ! i) ''table'', get (flds ! i) ''schema'')
           \<longrightarrow> flds' ! i = flds ! i)"
proof (induction ps arbitrary: flds keysArr rej c w)
  case Nil
  then show ?case by simp
next
  case (Cons p ps)
  obtain ptable pschema where p: "p = (ptable, pschema)"
    by (cases p)
  show ?case
  proof (cases "resolved p")
    case False
    with p have "\<not> truthy ptable \<or> \<not> truthy pschema"
      by (simp add: resolved_def)
    with p Cons.prems have "enrich self dv ps flds keysArr rej c w = ((Some (flds', keys'), rej'), c', w')"
      by simp
    then show ?thesis
      by (rule Cons.IH)
  next
    case True
    with p have t: "\<not> (\<not> truthy ptable \<or> \<not> truthy pschema)" and r: "resolved (ptable, pschema)"
      by (simp_all add: resolved_def)
    from Cons.prems p t obtain flds1 rej1 c1 w1 keys2 rej2 c2 w2 where
      cd: "column_details self dv ptable pschema flds rej c w = ((Some flds1, rej1), c1, w1)"
      and rest: "enrich self dv ps flds1 keys2 rej2 c2 w2 = ((Some (flds', keys'), rej'), c', w')"
      by (auto split: prod.splits option.splits)
    from Cons.IH [OF rest] column_details_keeps [OF cd r] show ?thesis
      by auto
  qed
qed

text \<open>
  C8: in the enrichment that raw makes under \<open>details\<close>, a pair of table and schema
  with a falsy table or a falsy schema (the origin of the fields could not be
  resolved) is skipped: the loop over the pairs does what it does on the resolved
  pairs alone, so an unresolved pair causes no lookup and no rejection. And whenever
  the loop ends, the fields of unresolved origin are as they were before it: what
  they lacked, \<open>length\<close> and \<open>key\<close> included, they still lack.
\<close>

theorem unresolved_origin_skipped:
  "details_part self dv args remappedFields c w =
     (if a_details args \<and> remappedFields \<noteq> []
      then enrich self dv (filter resolved (paramsArr remappedFields)) remappedFields [] None c w
      else ((Some (remappedFields, []), None), c, w))
   \<and> (details_part self dv args remappedFields c w = ((Some (flds', keysArr), rej), c', w')
      \<and> i < length remappedFields
      \<and> \<not> resolved (get (remappedFields ! i) ''table'', get (remappedFields ! i) ''schema'')
    \<longrightarrow> length flds' = length remappedFields \<and> flds' ! i = remappedFields ! i)"
proof (intro conjI impI)
  show "details_part self dv args remappedFields c w =
     (if a_details args \<and> remappedFields \<noteq> []
      then enrich self dv (filter resolved (paramsArr remappedFields)) remappedFields [] None c w
      else ((Some (remappedFields, []), None), c, w))"
    by (simp add: details_part_def enrich_skips [symmetric])
next
  assume a: "details_part self dv args remappedFields c w = ((Some (flds', keysArr), rej), c', w')
      \<and> i < length remappedFields
      \<and> \<not> resolved (get (remappedFields ! i) ''table'', get (remappedFields ! i) ''schema'')"
  then have "length flds' = length remappedFields
     \<and> (\<forall>i<length remappedFields.
           \<not> resolved (get (remappedFields ! i) ''table'', get (remappedFields ! i) ''schema'')
           \<longrightarrow> flds' ! i = remappedFields ! i)"
    by (auto simp: details_part_def split: if_splits dest: enrich_keeps)
  with a show "length flds' = length remappedFields" and "flds' ! i = remappedFields ! i"
    by simp_all
qed
lemma example_enrichment:
  "\<exists>flds' keysArr.
     details_part catalog_raw example_driver details_args [field_of_t, field_of_unknown]
       example_client 0 = ((Some (flds', keysArr), None), example_client, 3)
     \<and> length keysArr = 1
     \<and> get (flds' ! 0) ''length'' = Num 32 \<and> get (flds' ! 0) ''key'' = Str ''pri''"
  by (simp add: details_part_def details_args_def paramsArr_def uniq_def field_of_t_def
      field_of_unknown_def get_def column_details_def key_usage_def getTableColumns_def
      getTableIndexes_def getKeyUsage_def catalog_raw_def await_def rows_of_def make_result_def
      is_array_row_def catalog_row_def column_descriptor_def settle_def index_descriptor_def
      merge_details_def js_or_def toUpperCase_def toUpperChar_def example_client_def Let_def)

theorem unresolved_origin_skipped_witness:
  "\<not> resolved (get field_of_unknown ''table'', get field_of_unknown ''schema'')
   \<and> snd (fst (details_part catalog_raw example_driver details_args
        [field_of_t, field_of_unknown] example_client 0)) = None
   \<and> get (fst (the (fst (fst (details_part catalog_raw example_driver details_args
        [field_of_t, field_of_unknown] example_client 0)))) ! 0) ''length'' = Num 32
   \<and> get (fst (the (fst (fst (details_part catalog_raw example_driver details_args
        [field_of_t, field_of_unknown] example_client 0)))) ! 0) ''key'' = Str ''pri''
   \<and> fst (the (fst (fst (details_part catalog_raw example_driver details_args
        [field_of_t, field_of_unknown] example_client 0)))) ! 1 = field_of_unknown
   \<and> get field_of_unknown ''length'' = Undefined
   \<and> get field_of_unknown ''key'' = Undefined"
proof -
  from example_enrichment obtain flds' keysArr where
    run: "details_part catalog_raw example_driver details_args [field_of_t, field_of_unknown]
       example_client 0 = ((Some (flds', keysArr), None), example_client, 3)"
    and merged: "get (flds' ! 0) ''length'' = Num 32" "get (flds' ! 0) ''key'' = Str ''pri''"
    by blast
  have u: "\<not> resolved (get ([field_of_t, field_of_unknown] ! 1) ''table'',
                        get ([field_of_t, field_of_unknown] ! 1) ''schema'')"
    by (simp add: resolved_def field_of_unknown_def get_def)
  from unresolved_origin_skipped [of catalog_raw example_driver details_args
      "[field_of_t, field_of_unknown]" example_client 0 flds' keysArr None example_client 3 1]
    run u
  have kept: "flds' ! 1 = field_of_unknown"
    by simp
  have absent: "get field_of_unknown ''length'' = Undefined" "get field_of_unknown ''key'' = Undefined"
    by (simp_all add: field_of_unknown_def get_def)
  from u run merged kept absent show ?thesis
    by simp
qed

end
